theory Spec2Isabelle
  imports Complex_Main "HOL-Library.Multiset"
begin

section \<open>Numbers\<close>

text \<open>
  A JavaScript number is an IEEE double. Every finite double is a rational, so the finite
  values are carried by \<open>rat\<close>; the two infinities and NaN are separate constructors.
  The comparison operators and unary minus of the language are exact on doubles, so they
  are exact here. Negative zero is identified with zero: no operation used by the code
  tells them apart.
\<close>

datatype number = NaN | NegInf | Fin rat | PosInf

fun rank :: "number \<Rightarrow> int" where
  "rank NaN = 2"
| "rank NegInf = -1"
| "rank (Fin q) = 0"
| "rank PosInf = 1"

fun val :: "number \<Rightarrow> rat" where
  "val (Fin q) = q"
| "val NaN = 0"
| "val NegInf = 0"
| "val PosInf = 0"

definition num_lt :: "number \<Rightarrow> number \<Rightarrow> bool" where
  \<comment> \<open>\<open>a < b\<close>: false as soon as one side is NaN\<close>
  "num_lt a b = (a \<noteq> NaN \<and> b \<noteq> NaN \<and> (rank a < rank b \<or> (rank a = rank b \<and> val a < val b)))"

definition num_le :: "number \<Rightarrow> number \<Rightarrow> bool" where
  \<comment> \<open>\<open>a <= b\<close>\<close>
  "num_le a b = (a \<noteq> NaN \<and> b \<noteq> NaN \<and> (rank a < rank b \<or> (rank a = rank b \<and> val a \<le> val b)))"

definition num_gt :: "number \<Rightarrow> number \<Rightarrow> bool" where
  \<comment> \<open>\<open>a > b\<close>\<close>
  "num_gt a b = num_lt b a"

definition num_ge :: "number \<Rightarrow> number \<Rightarrow> bool" where
  \<comment> \<open>\<open>a >= b\<close>\<close>
  "num_ge a b = num_le b a"

fun num_neg :: "number \<Rightarrow> number" where
  \<comment> \<open>unary minus\<close>
  "num_neg NaN = NaN"
| "num_neg NegInf = PosInf"
| "num_neg (Fin q) = Fin (- q)"
| "num_neg PosInf = NegInf"

section \<open>Data model\<close>

text \<open>
  Modelled from the spec: the type declarations of \<open>types.ts\<close> (\<open>Trade\<close>,
  \<open>GroupedTrades\<close>, \<open>PineScriptTimestamp\<close>) are not among the sources. The records
  have the fields that the data model of the specification lists and that
  \<open>tradeProcessor.ts\<close> reads and writes. The field \<open>size\<close> of a trade is written
  \<open>size'\<close>.
\<close>

datatype side = Buy | Sell

record trade =
  ticket :: string
  openTimeRaw :: string
  type :: side
  size' :: number
  item :: string
  openPrice :: number
  closeTimeRaw :: string
  closePrice :: number
  profit :: number

record group =
  winners :: "trade list"
  breakeven :: "trade list"
  losers :: "trade list"

record PineScriptTimestamp =
  year :: int
  month :: int
  day :: int
  hours :: int
  minutes :: int

text \<open>constants.ts: the three process-wide offsets, gathered in one value so that a
  statement can vary them.\<close>

record config =
  MT4_UTC_OFFSET :: int
  TV_UTC_OFFSET :: int
  TV_TIMESTAMP_CORRECTION_HOURS :: int

definition constants :: config where
  "constants = \<lparr>MT4_UTC_OFFSET = 3, TV_UTC_OFFSET = -6, TV_TIMESTAMP_CORRECTION_HOURS = 2\<rparr>"

section \<open>The Date object of the language\<close>

text \<open>
  A Date is its time value: milliseconds since 1970-01-01T00:00:00Z, an integer. The
  definitions below are the abstract operations of ECMA-262 (section "Date Objects") that
  \<open>Date.UTC\<close>, \<open>setUTCHours\<close> and the \<open>getUTC...\<close> readers are specified by. All
  divisions are floor divisions, which is what \<open>div\<close> and \<open>mod\<close> are on \<open>int\<close>.
  TimeClip is the identity on every time value the code can build from a four-digit year
  and offsets of a few hours, and is left out.
\<close>

definition msPerSecond :: int where "msPerSecond = 1000"
definition msPerMinute :: int where "msPerMinute = 60000"
definition msPerHour :: int where "msPerHour = 3600000"
definition msPerDay :: int where "msPerDay = 86400000"

definition Day :: "int \<Rightarrow> int" where
  "Day t = t div msPerDay"

definition HourFromTime :: "int \<Rightarrow> int" where
  "HourFromTime t = (t div msPerHour) mod 24"

definition MinFromTime :: "int \<Rightarrow> int" where
  "MinFromTime t = (t div msPerMinute) mod 60"

definition SecFromTime :: "int \<Rightarrow> int" where
  "SecFromTime t = (t div msPerSecond) mod 60"

definition msFromTime :: "int \<Rightarrow> int" where
  "msFromTime t = t mod msPerSecond"

definition DayFromYear :: "int \<Rightarrow> int" where
  "DayFromYear y = 365 * (y - 1970) + (y - 1969) div 4 - (y - 1901) div 100 + (y - 1601) div 400"

definition InLeapYear :: "int \<Rightarrow> bool" where
  "InLeapYear y = (y mod 4 = 0 \<and> (y mod 100 \<noteq> 0 \<or> y mod 400 = 0))"

definition daysBeforeMonth :: "bool \<Rightarrow> int \<Rightarrow> int" where
  \<comment> \<open>days of the year before month \<open>mn\<close> (0 = January)\<close>
  "daysBeforeMonth leap mn =
     (if mn \<le> 0 then 0
      else if mn = 1 then 31
      else (if leap then 1 else 0) +
        (if mn = 2 then 59 else if mn = 3 then 90 else if mn = 4 then 120
         else if mn = 5 then 151 else if mn = 6 then 181 else if mn = 7 then 212
         else if mn = 8 then 243 else if mn = 9 then 273 else if mn = 10 then 304
         else 334))"

definition MakeDay :: "int \<Rightarrow> int \<Rightarrow> int \<Rightarrow> int" where
  \<comment> \<open>month is 0-based and may lie outside 0..11; date may lie outside the month\<close>
  "MakeDay yr mo dt =
     (let ym = yr + mo div 12; mn = mo mod 12
      in DayFromYear ym + daysBeforeMonth (InLeapYear ym) mn + dt - 1)"

definition MakeTime :: "int \<Rightarrow> int \<Rightarrow> int \<Rightarrow> int \<Rightarrow> int" where
  "MakeTime h m s ms = h * msPerHour + m * msPerMinute + s * msPerSecond + ms"

definition MakeDate :: "int \<Rightarrow> int \<Rightarrow> int" where
  "MakeDate dy tm = dy * msPerDay + tm"

definition MakeFullYear :: "int \<Rightarrow> int" where
  \<comment> \<open>\<open>Date.UTC\<close> reads a year from 0 to 99 as 1900 + year\<close>
  "MakeFullYear y = (if 0 \<le> y \<and> y \<le> 99 then 1900 + y else y)"

definition Date_UTC :: "int \<Rightarrow> int \<Rightarrow> int \<Rightarrow> int \<Rightarrow> int \<Rightarrow> int \<Rightarrow> int" where
  "Date_UTC y mo dt h mi s = MakeDate (MakeDay (MakeFullYear y) mo dt) (MakeTime h mi s 0)"

definition setUTCHours :: "int \<Rightarrow> int \<Rightarrow> int" where
  \<comment> \<open>\<open>d.setUTCHours(h)\<close> with one argument: minutes, seconds and ms are kept\<close>
  "setUTCHours t h = MakeDate (Day t) (MakeTime h (MinFromTime t) (SecFromTime t) (msFromTime t))"

text \<open>The calendar readers: year, month (0-based) and day of month of a day number,
  computed in the proleptic Gregorian calendar with the year starting in March.\<close>

definition civilFromDay :: "int \<Rightarrow> int \<times> int \<times> int" where
  "civilFromDay z =
     (let z' = z + 719468;
          era = z' div 146097;
          doe = z' - era * 146097;
          yoe = (doe - doe div 1460 + doe div 36524 - doe div 146096) div 365;
          doy = doe - (365 * yoe + yoe div 4 - yoe div 100);
          mp = (5 * doy + 2) div 153;
          d = doy - (153 * mp + 2) div 5 + 1;
          m = (if mp < 10 then mp + 3 else mp - 9);
          y = yoe + era * 400 + (if m \<le> 2 then 1 else 0)
      in (y, m - 1, d))"

definition YearFromTime :: "int \<Rightarrow> int" where
  "YearFromTime t = fst (civilFromDay (Day t))"

definition MonthFromTime :: "int \<Rightarrow> int" where
  "MonthFromTime t = fst (snd (civilFromDay (Day t)))"

definition DateFromTime :: "int \<Rightarrow> int" where
  "DateFromTime t = snd (snd (civilFromDay (Day t)))"

section \<open>Strings\<close>

text \<open>
  A string is its list of characters. The digit class \<open>\d\<close> of a regular expression
  without the unicode flag is exactly \<open>0-9\<close>. White space and letter case, further
  down, are the ASCII ones; other characters are carried unchanged.
\<close>

definition is_digit :: "char \<Rightarrow> bool" where
  "is_digit c = (c \<in> set ''0123456789'')"

definition digit_val :: "char \<Rightarrow> int" where
  "digit_val c = int (of_char c) - 48"

definition Number_digits :: "string \<Rightarrow> int" where
  \<comment> \<open>\<open>Number(s)\<close> on a string of decimal digits\<close>
  "Number_digits ds = foldl (\<lambda>a c. 10 * a + digit_val c) 0 ds"

datatype pat = Digit | Lit char

fun pat_ok :: "pat \<Rightarrow> char \<Rightarrow> bool" where
  "pat_ok Digit c = is_digit c"
| "pat_ok (Lit x) c = (c = x)"

fun match_here :: "pat list \<Rightarrow> string \<Rightarrow> bool" where
  "match_here [] s = True"
| "match_here (p # ps) [] = False"
| "match_here (p # ps) (c # cs) = (pat_ok p c \<and> match_here ps cs)"

fun regex_search :: "pat list \<Rightarrow> string \<Rightarrow> string option" where
  \<comment> \<open>\<open>s.match(re)\<close> for a pattern without anchors or repetition: the text of the
      leftmost occurrence, or None (the null of the language)\<close>
  "regex_search ps [] = (if match_here ps [] then Some [] else None)"
| "regex_search ps (c # cs) =
     (if match_here ps (c # cs) then Some (take (length ps) (c # cs)) else regex_search ps cs)"

definition MT4_DATE_PATTERN :: "pat list" where
  \<comment> \<open>\<open>/(\d{4})\.(\d{2})\.(\d{2}) (\d{2}):(\d{2}):(\d{2})/\<close>\<close>
  "MT4_DATE_PATTERN =
     [Digit, Digit, Digit, Digit, Lit (CHR ''.''), Digit, Digit, Lit (CHR ''.''), Digit, Digit,
      Lit (CHR '' ''), Digit, Digit, Lit (CHR '':''), Digit, Digit, Lit (CHR '':''), Digit, Digit]"

definition full_match :: "string \<Rightarrow> bool" where
  \<comment> \<open>the anchored pattern of the specification,
      \<open>^\d{4}\.\d{2}\.\d{2} \d{2}:\d{2}:\d{2}$\<close>: the whole string has the shape\<close>
  "full_match s = (match_here MT4_DATE_PATTERN s \<and> length s = length MT4_DATE_PATTERN)"

section \<open>Time Reconciler (services/tradeProcessor.ts)\<close>

text \<open>
  \<open>new Date()\<close> reads the wall clock. The reading is the parameter \<open>now\<close>; a caller
  that evaluates several conversions passes the same reading to all of them.
\<close>

definition instantOfMatch :: "config \<Rightarrow> string \<Rightarrow> int" where
  \<comment> \<open>lines 13 to 18: the six captured groups, \<open>Date.UTC\<close>, the server offset\<close>
  "instantOfMatch cfg m =
     (let year = Number_digits (take 4 m);
          month = Number_digits (take 2 (drop 5 m));
          day = Number_digits (take 2 (drop 8 m));
          hours = Number_digits (take 2 (drop 11 m));
          minutes = Number_digits (take 2 (drop 14 m));
          seconds = Number_digits (take 2 (drop 17 m));
          pseudoUTCDate = Date_UTC year (month - 1) day hours minutes seconds
      in setUTCHours pseudoUTCDate (HourFromTime pseudoUTCDate - MT4_UTC_OFFSET cfg))"

definition parseMT4DateToUTC :: "config \<Rightarrow> int \<Rightarrow> string \<Rightarrow> int" where
  "parseMT4DateToUTC cfg now dateStr =
     (case regex_search MT4_DATE_PATTERN dateStr of
        None \<Rightarrow> now
      | Some parts \<Rightarrow> instantOfMatch cfg parts)"

datatype error = MalformedTimestamp string

definition parseMT4DateToUTC_call :: "config \<Rightarrow> int \<Rightarrow> string \<Rightarrow> error + int" where
  \<comment> \<open>the completion of a call: the body has no \<open>throw\<close> and calls nothing that throws,
      so every call completes normally with the Date it returns\<close>
  "parseMT4DateToUTC_call cfg now dateStr = Inr (parseMT4DateToUTC cfg now dateStr)"

definition readFields :: "int \<Rightarrow> PineScriptTimestamp" where
  \<comment> \<open>lines 33 to 39: the object literal read from \<open>adjustedDate\<close>\<close>
  "readFields t =
     \<lparr>year = YearFromTime t, month = MonthFromTime t + 1, day = DateFromTime t,
      hours = HourFromTime t, minutes = MinFromTime t\<rparr>"

definition convertToPineScriptTimestamp :: "config \<Rightarrow> int \<Rightarrow> PineScriptTimestamp" where
  "convertToPineScriptTimestamp cfg utcDate =
     (let hourAdjustment = TV_UTC_OFFSET cfg + TV_TIMESTAMP_CORRECTION_HOURS cfg;
          adjustedDate = setUTCHours utcDate (HourFromTime utcDate + hourAdjustment)
      in readFields adjustedDate)"

section \<open>Report Parser (services/tradeProcessor.ts)\<close>

text \<open>
  The parser works on what the two \<open>querySelectorAll\<close> calls deliver: the rows of the
  document in document order, each row being the text contents of its cells. Building
  that structure from the HTML text is the browser's work and is the input here. The
  text content of an element is never null, so the optional chaining \<open>?.\<close> of the
  source always takes the defined branch.
\<close>

definition is_ws :: "char \<Rightarrow> bool" where
  \<comment> \<open>white space and line terminators removed by \<open>trim\<close> (the ASCII ones)\<close>
  "is_ws c = (c \<in> set [CHR '' '', CHR 0x09, CHR 0x0A, CHR 0x0B, CHR 0x0C, CHR 0x0D])"

definition trim :: "string \<Rightarrow> string" where
  "trim s = rev (dropWhile is_ws (rev (dropWhile is_ws s)))"

definition lower_char :: "char \<Rightarrow> char" where
  "lower_char c = (let n = of_char c :: nat in if 65 \<le> n \<and> n \<le> 90 then char_of (n + 32) else c)"

definition upper_char :: "char \<Rightarrow> char" where
  "upper_char c = (let n = of_char c :: nat in if 97 \<le> n \<and> n \<le> 122 then char_of (n - 32) else c)"

definition toLowerCase :: "string \<Rightarrow> string" where
  "toLowerCase s = map lower_char s"

definition toUpperCase :: "string \<Rightarrow> string" where
  "toUpperCase s = map upper_char s"

fun starts_with :: "string \<Rightarrow> string \<Rightarrow> bool" where
  "starts_with s [] = True"
| "starts_with [] (p # ps) = False"
| "starts_with (c # cs) (p # ps) = (c = p \<and> starts_with cs ps)"

fun includes_str :: "string \<Rightarrow> string \<Rightarrow> bool" where
  \<comment> \<open>\<open>s.includes_str(sub)\<close>\<close>
  "includes_str [] sub = (sub = [])"
| "includes_str (c # cs) sub = (starts_with (c # cs) sub \<or> includes_str cs sub)"

definition orElse :: "string \<Rightarrow> string \<Rightarrow> string" where
  \<comment> \<open>\<open>s || d\<close> on strings: the empty string is the only falsy one\<close>
  "orElse s d = (if s = [] then d else s)"

definition exponent_prefix :: "string \<Rightarrow> string" where
  \<comment> \<open>the ExponentPart at the start of the text, or nothing\<close>
  "exponent_prefix r =
     (case r of
        [] \<Rightarrow> []
      | c # cs \<Rightarrow>
          if c = CHR ''e'' \<or> c = CHR ''E'' then
            (let sg = (case cs of [] \<Rightarrow> [] | d # _ \<Rightarrow> if d = CHR ''+'' \<or> d = CHR ''-'' then [d] else []);
                 ds = takeWhile is_digit (drop (length sg) cs)
             in if ds = [] then [] else c # sg @ ds)
          else [])"

definition float_prefix :: "string \<Rightarrow> string option" where
  \<comment> \<open>the longest prefix that is a StrDecimalLiteral, which \<open>parseFloat\<close> converts;
      None when no prefix is one\<close>
  "float_prefix s =
     (let sg = (case s of [] \<Rightarrow> [] | c # _ \<Rightarrow> if c = CHR ''+'' \<or> c = CHR ''-'' then [c] else []);
          r = drop (length sg) s
      in if starts_with r ''Infinity'' then Some (sg @ ''Infinity'')
         else
           (let ip = takeWhile is_digit r;
                r1 = dropWhile is_digit r;
                fp = (case r1 of [] \<Rightarrow> []
                      | c # cs \<Rightarrow> if c = CHR ''.'' then c # takeWhile is_digit cs else []);
                r2 = drop (length fp) r1
            in if ip = [] \<and> length fp \<le> 1 then None
               else Some (sg @ ip @ fp @ exponent_prefix r2)))"

definition parseFloat :: "(string \<Rightarrow> number) \<Rightarrow> string \<Rightarrow> number" where
  \<comment> \<open>\<open>conv\<close> is the runtime's value of a well-formed decimal literal, rounded to a
      double; what is modelled in full is when \<open>parseFloat\<close> finds no number\<close>
  "parseFloat conv s =
     (case float_prefix (dropWhile is_ws s) of None \<Rightarrow> NaN | Some lit \<Rightarrow> conv lit)"

definition rowToTrade :: "(string \<Rightarrow> number) \<Rightarrow> string list \<Rightarrow> trade option" where
  \<comment> \<open>lines 68 to 85, for a row of 14 cells; None is a row that adds nothing
      (\<open>continue\<close>, or an empty item). No statement of the \<open>try\<close> block can throw on
      14 cells, so the \<open>catch\<close> is never entered.\<close>
  "rowToTrade conv cells =
     (let type = toLowerCase (trim (cells ! 2))
      in if type \<noteq> ''buy'' \<and> type \<noteq> ''sell'' then None
         else
           (let trade =
                  \<lparr>ticket = orElse (trim (cells ! 0)) '''',
                   openTimeRaw = orElse (trim (cells ! 1)) '''',
                   type = (if type = ''buy'' then Buy else Sell),
                   size' = parseFloat conv (orElse (trim (cells ! 3)) ''0''),
                   item = orElse (toLowerCase (trim (cells ! 4))) '''',
                   openPrice = parseFloat conv (orElse (trim (cells ! 5)) ''0''),
                   closeTimeRaw = orElse (trim (cells ! 8)) '''',
                   closePrice = parseFloat conv (orElse (trim (cells ! 9)) ''0''),
                   profit = parseFloat conv (orElse (trim (cells ! 13)) ''0'')\<rparr>
            in if item trade \<noteq> [] then Some trade else None))"

fun scanRows :: "(string \<Rightarrow> number) \<Rightarrow> string list list \<Rightarrow> bool \<Rightarrow> trade list \<Rightarrow> trade list" where
  \<comment> \<open>the \<open>for\<close> loop of lines 55 to 90, with its two variables\<close>
  "scanRows conv [] inClosedTransactions trades = trades"
| "scanRows conv (cells # rest) inClosedTransactions trades =
     (if cells \<noteq> [] \<and> includes_str (cells ! 0) ''Closed Transactions:''
      then scanRows conv rest True trades
      else if cells \<noteq> [] \<and>
              (includes_str (cells ! 0) ''Open Trades:'' \<or> includes_str (cells ! 0) ''Working Orders:'')
      then trades
      else if inClosedTransactions \<and> length cells = 14
      then (case rowToTrade conv cells of
              None \<Rightarrow> scanRows conv rest inClosedTransactions trades
            | Some trade \<Rightarrow> scanRows conv rest inClosedTransactions (trades @ [trade]))
      else scanRows conv rest inClosedTransactions trades)"

definition parseMT4Report :: "(string \<Rightarrow> number) \<Rightarrow> string list list \<Rightarrow> trade list" where
  "parseMT4Report conv allRows = scanRows conv allRows False []"

section \<open>Classifier and deduplicator (services/tradeProcessor.ts)\<close>

text \<open>
  \<open>GroupedTrades\<close> is an object used as a dictionary from item to group; it is the list
  of its own properties in creation order. An item that names a property which every
  object inherits (such as \<open>constructor\<close>) is outside this model: the test of line 109
  finds the inherited value there. The clock reading \<open>now\<close>, which stands for the open
  instant of a trade whose open time has no timestamp in it, is one value for the whole
  call. \<open>Array.prototype.sort\<close> is stable (ECMAScript
  2019), and the comparator is the difference of two open instants, so sorting is the
  stable sort by that key. It sorts the array it is called on, in place, and returns that
  same array: the second component of the result of \<open>classifyAndGroupTrades\<close> is the
  content of the caller's array \<open>allTrades\<close> when the call returns.
\<close>

type_synonym GroupedTrades = "(string \<times> group) list"

definition openInstant :: "config \<Rightarrow> int \<Rightarrow> trade \<Rightarrow> int" where
  \<comment> \<open>\<open>parseMT4DateToUTC(a.openTimeRaw).getTime()\<close>\<close>
  "openInstant cfg now a = parseMT4DateToUTC cfg now (openTimeRaw a)"

definition sortByOpenTime :: "config \<Rightarrow> int \<Rightarrow> trade list \<Rightarrow> trade list" where
  "sortByOpenTime cfg now xs = sort_key (openInstant cfg now) xs"

definition emptyGroup :: group where
  "emptyGroup = \<lparr>winners = [], breakeven = [], losers = []\<rparr>"

definition updateGroup :: "string \<Rightarrow> (group \<Rightarrow> group) \<Rightarrow> GroupedTrades \<Rightarrow> GroupedTrades" where
  "updateGroup k f grouped = map (\<lambda>(k', g). if k' = k then (k', f g) else (k', g)) grouped"

definition bucketStep :: "number \<Rightarrow> GroupedTrades \<Rightarrow> trade \<Rightarrow> GroupedTrades" where
  \<comment> \<open>lines 109 to 118: one turn of the first loop\<close>
  "bucketStep beTolerance grouped trade =
     (let grouped1 = (if map_of grouped (item trade) = None
                      then grouped @ [(item trade, emptyGroup)] else grouped)
      in if num_gt (profit trade) beTolerance
         then updateGroup (item trade) (\<lambda>g. g\<lparr>winners := winners g @ [trade]\<rparr>) grouped1
         else if num_ge (profit trade) (num_neg beTolerance) \<and> num_le (profit trade) beTolerance
         then updateGroup (item trade) (\<lambda>g. g\<lparr>breakeven := breakeven g @ [trade]\<rparr>) grouped1
         else updateGroup (item trade) (\<lambda>g. g\<lparr>losers := losers g @ [trade]\<rparr>) grouped1)"

definition bucketTrades :: "number \<Rightarrow> trade list \<Rightarrow> GroupedTrades" where
  \<comment> \<open>lines 108 to 119: the value of \<open>grouped\<close> when the first loop ends\<close>
  "bucketTrades beTolerance sortedTrades = foldl (bucketStep beTolerance) [] sortedTrades"

definition dedupKey :: "(number \<Rightarrow> string) \<Rightarrow> trade \<Rightarrow> string" where
  \<comment> \<open>the template literal of line 127; \<open>numstr\<close> is the runtime's conversion of a
      number to a string\<close>
  "dedupKey numstr winner = openTimeRaw winner @ ''_'' @ numstr (openPrice winner)"

definition mapSet :: "string \<Rightarrow> trade \<Rightarrow> (string \<times> trade) list \<Rightarrow> (string \<times> trade) list" where
  \<comment> \<open>\<open>Map.prototype.set\<close>: a new key goes to the end, a known key keeps its place\<close>
  "mapSet k v m =
     (if map_of m k = None then m @ [(k, v)]
      else map (\<lambda>(k', v'). if k' = k then (k', v) else (k', v')) m)"

definition dedupStep :: "(number \<Rightarrow> string) \<Rightarrow> (string \<times> trade) list \<Rightarrow> trade \<Rightarrow> (string \<times> trade) list" where
  \<comment> \<open>lines 127 to 131: one turn of the inner loop\<close>
  "dedupStep numstr uniqueWinnersMap winner =
     (let key = dedupKey numstr winner
      in case map_of uniqueWinnersMap key of
           None \<Rightarrow> mapSet key winner uniqueWinnersMap
         | Some existing \<Rightarrow>
             if num_gt (profit winner) (profit existing)
             then mapSet key winner uniqueWinnersMap
             else uniqueWinnersMap)"

definition uniqueWinners :: "(number \<Rightarrow> string) \<Rightarrow> trade list \<Rightarrow> trade list" where
  \<comment> \<open>\<open>Array.from(uniqueWinnersMap.values())\<close> after the inner loop\<close>
  "uniqueWinners numstr ws = map snd (foldl (dedupStep numstr) [] ws)"

definition dedupWinners :: "config \<Rightarrow> int \<Rightarrow> (number \<Rightarrow> string) \<Rightarrow> trade list \<Rightarrow> trade list" where
  \<comment> \<open>lines 123 to 135: the new winners list of one item\<close>
  "dedupWinners cfg now numstr ws = sortByOpenTime cfg now (uniqueWinners numstr ws)"

definition classifyAndGroupTrades ::
  "config \<Rightarrow> int \<Rightarrow> (number \<Rightarrow> string) \<Rightarrow> trade list \<Rightarrow> number \<Rightarrow> GroupedTrades \<times> trade list" where
  "classifyAndGroupTrades cfg now numstr allTrades beTolerance =
     (let sortedTrades = sortByOpenTime cfg now allTrades;
          grouped = bucketTrades beTolerance sortedTrades;
          grouped' = map (\<lambda>(item, g). (item, g\<lparr>winners := dedupWinners cfg now numstr (winners g)\<rparr>))
                         grouped
      in (grouped', sortedTrades))"

section \<open>Script Generator (services/tradeProcessor.ts)\<close>

fun show_nat :: "nat \<Rightarrow> string" where
  "show_nat n = (if n < 10 then [char_of (48 + n)] else show_nat (n div 10) @ [char_of (48 + n mod 10)])"

declare show_nat.simps [simp del]

definition show_int :: "int \<Rightarrow> string" where
  \<comment> \<open>the text of an integer in a template literal\<close>
  "show_int i = (if i < 0 then ''-'' @ show_nat (nat (- i)) else show_nat (nat i))"

definition toFixed2 :: "(number \<Rightarrow> string) \<Rightarrow> number \<Rightarrow> string" where
  \<comment> \<open>\<open>x.toFixed(2)\<close> as ECMA-262 defines it: not finite, or 10^21 and above, prints as
      the plain conversion does; otherwise the nearest multiple of 1/100, ties upwards
      in magnitude\<close>
  "toFixed2 numstr v =
     (case v of
        Fin q \<Rightarrow>
          (let s = (if q < 0 then ''-'' else '''');
               x = \<bar>q\<bar>
           in if x \<ge> 10 ^ 21 then s @ numstr (Fin x)
              else
                (let n = nat \<lfloor>x * 100 + 1 / 2\<rfloor>;
                     m = show_nat n;
                     m' = (if length m \<le> 2 then replicate (3 - length m) (CHR ''0'') @ m else m)
                 in s @ take (length m' - 2) m' @ ''.'' @ drop (length m' - 2) m'))
      | _ \<Rightarrow> numstr v)"

definition sideText :: "side \<Rightarrow> string" where
  "sideText s = (case s of Buy \<Rightarrow> ''buy'' | Sell \<Rightarrow> ''sell'')"

definition tooltipText :: "(number \<Rightarrow> string) \<Rightarrow> trade \<Rightarrow> string" where
  \<comment> \<open>lines 171, 183 and 194; \<open>\\n\<close> in the template is a backslash and an n\<close>
  "tooltipText numstr trade =
     ''Ticket: '' @ ticket trade @ [CHR 0x5C] @ ''nType: '' @ sideText (type trade)
       @ [CHR 0x5C] @ ''nProfit: '' @ toFixed2 numstr (profit trade)"

definition timestampText :: "PineScriptTimestamp \<Rightarrow> string" where
  "timestampText ts =
     ''timestamp('' @ show_int (year ts) @ '', '' @ show_int (month ts) @ '', '' @ show_int (day ts)
       @ '', '' @ show_int (hours ts) @ '', '' @ show_int (minutes ts) @ '')''"

definition scriptHeader :: "string \<Rightarrow> string" where
  "scriptHeader itemName =
     ''//@version=5\<newline>indicator(\"'' @ toUpperCase itemName
       @ '' Trades from Report\", overlay=true, scale=scale.price)\<newline>\<newline>''
       @ ''// --- INPUTS ---\<newline>''
       @ ''var string size_tiny = \"tiny\"\<newline>''
       @ ''var string size_small = \"small\"\<newline>''
       @ ''var string size_normal = \"normal\"\<newline>''
       @ ''var string size_large = \"large\"\<newline>''
       @ ''var string size_huge = \"huge\"\<newline>''
       @ ''var iconSize = input.string(size_normal, \"Icon Size\", options=[size_tiny, size_small, size_normal, size_large, size_huge])\<newline>''
       @ ''\<newline>if barstate.islast\<newline>''"

definition winnerBlock :: "config \<Rightarrow> int \<Rightarrow> (number \<Rightarrow> string) \<Rightarrow> trade \<Rightarrow> string" where
  \<comment> \<open>lines 169 to 177: the text one winner adds to \<open>winnersCode\<close>\<close>
  "winnerBlock cfg now numstr trade =
     (let openTimestamp = convertToPineScriptTimestamp cfg (parseMT4DateToUTC cfg now (openTimeRaw trade));
          closeTimestamp = convertToPineScriptTimestamp cfg (parseMT4DateToUTC cfg now (closeTimeRaw trade));
          tooltip = tooltipText numstr trade
      in ''    // Winner: '' @ ticket trade @ ''\<newline>''
         @ ''    label.new('' @ timestampText openTimestamp @ '', '' @ numstr (openPrice trade)
         @ '', style=label.style_diamond, color=color.new(color.green, 20), textcolor=color.green, size=iconSize, tooltip=\"''
         @ tooltip @ ''\", xloc=xloc.bar_time, yloc=yloc.price)\<newline>''
         @ ''    label.new('' @ timestampText closeTimestamp @ '', '' @ numstr (closePrice trade)
         @ '', style=label.style_diamond, color=color.new(color.green, 20), textcolor=color.green, size=iconSize, tooltip=\"''
         @ tooltip @ ''\", xloc=xloc.bar_time, yloc=yloc.price)\<newline>''
         @ ''    line.new('' @ timestampText openTimestamp @ '', '' @ numstr (openPrice trade) @ '', ''
         @ timestampText closeTimestamp @ '', '' @ numstr (closePrice trade)
         @ '', color=color.new(color.white, 50), style=line.style_dotted, width=1, xloc=xloc.bar_time, yloc=yloc.price)\<newline>'')"

definition breakevenBlock :: "config \<Rightarrow> int \<Rightarrow> (number \<Rightarrow> string) \<Rightarrow> trade \<Rightarrow> string" where
  \<comment> \<open>lines 182 to 187\<close>
  "breakevenBlock cfg now numstr trade =
     (let openTimestamp = convertToPineScriptTimestamp cfg (parseMT4DateToUTC cfg now (openTimeRaw trade));
          tooltip = tooltipText numstr trade
      in ''    // Break Even: '' @ ticket trade @ ''\<newline>''
         @ ''    label.new('' @ timestampText openTimestamp @ '', '' @ numstr (openPrice trade)
         @ '', style=label.style_circle, color=color.new(color.blue, 20), textcolor=color.blue, size=iconSize, tooltip=\"''
         @ tooltip @ ''\", xloc=xloc.bar_time, yloc=yloc.price)\<newline>'')"

definition loserBlock :: "config \<Rightarrow> int \<Rightarrow> (number \<Rightarrow> string) \<Rightarrow> trade \<Rightarrow> string" where
  \<comment> \<open>lines 192 to 198\<close>
  "loserBlock cfg now numstr trade =
     (let openTimestamp = convertToPineScriptTimestamp cfg (parseMT4DateToUTC cfg now (openTimeRaw trade));
          style = (if type trade = Buy then ''label.style_arrowup'' else ''label.style_arrowdown'');
          tooltip = tooltipText numstr trade
      in ''    // Loser: '' @ ticket trade @ ''\<newline>''
         @ ''    label.new('' @ timestampText openTimestamp @ '', '' @ numstr (openPrice trade)
         @ '', style='' @ style
         @ '', color=color.new(color.red, 20), textcolor=color.red, size=iconSize, tooltip=\"''
         @ tooltip @ ''\", xloc=xloc.bar_time, yloc=yloc.price)\<newline>'')"

definition generatePineScriptForItem ::
  "config \<Rightarrow> int \<Rightarrow> (number \<Rightarrow> string) \<Rightarrow> string \<Rightarrow> group \<Rightarrow> string" where
  \<comment> \<open>each of the three \<open>for\<close> statements appends to a string that starts empty\<close>
  "generatePineScriptForItem cfg now numstr itemName data =
     (let header = scriptHeader itemName;
          winnersCode = foldl (\<lambda>code trade. code @ winnerBlock cfg now numstr trade) [] (winners data);
          breakevenCode = foldl (\<lambda>code trade. code @ breakevenBlock cfg now numstr trade) [] (breakeven data);
          losersCode = foldl (\<lambda>code trade. code @ loserBlock cfg now numstr trade) [] (losers data)
      in header @ winnersCode @ breakevenCode @ losersCode)"

section \<open>Number conversions used in the examples\<close>

text \<open>
  The functions of the model take the runtime's two conversions, literal to number and
  number to string, as parameters. The examples instantiate them with the exact value of
  a decimal literal and with the plain decimal text of a number. On the literals and
  numbers the examples use (whole numbers and short binary fractions such as 1.5, all of
  them doubles) these are what the runtime computes.
\<close>

definition decimalValue :: "string \<Rightarrow> number" where
  \<comment> \<open>the mathematical value of a StrDecimalLiteral\<close>
  "decimalValue lit =
     (let neg = starts_with lit ''-'';
          body = (if starts_with lit ''-'' \<or> starts_with lit ''+'' then drop 1 lit else lit)
      in if body = ''Infinity'' then (if neg then NegInf else PosInf)
         else
           (let ip = takeWhile is_digit body;
                r1 = dropWhile is_digit body;
                fp = (case r1 of [] \<Rightarrow> []
                      | c # cs \<Rightarrow> if c = CHR ''.'' then takeWhile is_digit cs else []);
                r2 = (case r1 of [] \<Rightarrow> []
                      | c # cs \<Rightarrow> if c = CHR ''.'' then dropWhile is_digit cs else r1);
                ex = (case r2 of [] \<Rightarrow> 0
                      | _ # es \<Rightarrow>
                          if starts_with es ''-'' then - Number_digits (drop 1 es)
                          else if starts_with es ''+'' then Number_digits (drop 1 es)
                          else Number_digits es);
                mant = (of_int (Number_digits (ip @ fp)) :: rat) / 10 ^ length fp;
                v = (if ex \<ge> 0 then mant * 10 ^ nat ex else mant / 10 ^ nat (- ex))
            in Fin (if neg then - v else v)))"

fun fracDigits :: "nat \<Rightarrow> rat \<Rightarrow> string" where
  "fracDigits 0 r = []"
| "fracDigits (Suc k) r =
     (if r = 0 then []
      else (let d = nat \<lfloor>r * 10\<rfloor> in char_of (48 + d) # fracDigits k (r * 10 - of_nat d)))"

definition showNumber :: "number \<Rightarrow> string" where
  \<comment> \<open>plain decimal text: sign, whole part, and the fraction digits when there are any\<close>
  "showNumber v =
     (case v of
        NaN \<Rightarrow> ''NaN''
      | PosInf \<Rightarrow> ''Infinity''
      | NegInf \<Rightarrow> ''-Infinity''
      | Fin q \<Rightarrow>
          (let w = nat \<lfloor>\<bar>q\<bar>\<rfloor>;
               f = \<bar>q\<bar> - of_nat w
           in (if q < 0 then ''-'' else '''') @ show_nat w
              @ (if f = 0 then [] else ''.'' @ fracDigits 20 f)))"

section \<open>Notions used to state the results\<close>

text \<open>The three branches of lines 112 to 118, as predicates on a trade, in the order the
  code tests them.\<close>

definition isWinner :: "number \<Rightarrow> trade \<Rightarrow> bool" where
  "isWinner beTolerance t = num_gt (profit t) beTolerance"

definition isBreakeven :: "number \<Rightarrow> trade \<Rightarrow> bool" where
  "isBreakeven beTolerance t =
     (\<not> num_gt (profit t) beTolerance
      \<and> num_ge (profit t) (num_neg beTolerance) \<and> num_le (profit t) beTolerance)"

definition isLoser :: "number \<Rightarrow> trade \<Rightarrow> bool" where
  "isLoser beTolerance t =
     (\<not> num_gt (profit t) beTolerance
      \<and> \<not> (num_ge (profit t) (num_neg beTolerance) \<and> num_le (profit t) beTolerance))"

definition addToGroup :: "number \<Rightarrow> group \<Rightarrow> trade list \<Rightarrow> group" where
  \<comment> \<open>a group after the trades of a list have been pushed to its three lists\<close>
  "addToGroup beTolerance g ts =
     \<lparr>winners = winners g @ filter (isWinner beTolerance) ts,
      breakeven = breakeven g @ filter (isBreakeven beTolerance) ts,
      losers = losers g @ filter (isLoser beTolerance) ts\<rparr>"

definition sameKey :: "trade \<Rightarrow> trade \<Rightarrow> bool" where
  \<comment> \<open>the deduplication key of the specification: open time text and open price\<close>
  "sameKey a b = (openTimeRaw a = openTimeRaw b \<and> openPrice a = openPrice b)"

definition numstrOk :: "(number \<Rightarrow> string) \<Rightarrow> trade list \<Rightarrow> bool" where
  \<comment> \<open>what the key text of line 127 needs from the conversion of numbers to strings:
      different open prices have different texts, and no text has an underscore. The
      runtime's conversion has both properties on all numbers.\<close>
  "numstrOk numstr ts =
     ((\<forall>a \<in> set ts. \<forall>b \<in> set ts.
          numstr (openPrice a) = numstr (openPrice b) \<longrightarrow> openPrice a = openPrice b)
      \<and> (\<forall>a \<in> set ts. CHR ''_'' \<notin> set (numstr (openPrice a))))"

fun best :: "trade option \<Rightarrow> trade list \<Rightarrow> trade option" where
  \<comment> \<open>the entry of one key while the inner loop runs over the winners of that key\<close>
  "best cur [] = cur"
| "best None (w # ws) = best (Some w) ws"
| "best (Some e) (w # ws) = best (if num_gt (profit w) (profit e) then Some w else Some e) ws"

definition isTop :: "trade list \<Rightarrow> trade \<Rightarrow> bool" where
  \<comment> \<open>no trade of the list has a higher profit\<close>
  "isTop ws w = (\<forall>u \<in> set ws. num_le (profit u) (profit w))"

definition keyed :: "(number \<Rightarrow> string) \<Rightarrow> (string \<times> trade) list \<Rightarrow> bool" where
  \<comment> \<open>the invariant of \<open>uniqueWinnersMap\<close>: one entry per key, each stored under its own key\<close>
  "keyed numstr m = (distinct (map fst m) \<and> (\<forall>(k, v) \<in> set m. dedupKey numstr v = k))"


section \<open>The script as a sequence of drawing statements\<close>

text \<open>
  The specification describes the script as a header followed by drawing statements:
  markers and connecting lines. The definitions of this section follow that description;
  the generated text is compared with their rendering. A caption is the comment line
  that precedes the statements of a trade.
\<close>

datatype statement =
    Caption string string
  | Marker PineScriptTimestamp number string string string
  | Connector PineScriptTimestamp number PineScriptTimestamp number

fun render :: "(number \<Rightarrow> string) \<Rightarrow> statement \<Rightarrow> string" where
  "render numstr (Caption kind tk) = ''    // '' @ kind @ '': '' @ tk @ ''\<newline>''"
| "render numstr (Marker ts price style colour tooltip) =
     ''    label.new('' @ timestampText ts @ '', '' @ numstr price @ '', style='' @ style
       @ '', color=color.new(color.'' @ colour @ '', 20), textcolor=color.'' @ colour
       @ '', size=iconSize, tooltip=\"'' @ tooltip
       @ ''\", xloc=xloc.bar_time, yloc=yloc.price)\<newline>''"
| "render numstr (Connector ts1 price1 ts2 price2) =
     ''    line.new('' @ timestampText ts1 @ '', '' @ numstr price1 @ '', ''
       @ timestampText ts2 @ '', '' @ numstr price2
       @ '', color=color.new(color.white, 50), style=line.style_dotted, width=1, xloc=xloc.bar_time, yloc=yloc.price)\<newline>''"

fun isMarker :: "statement \<Rightarrow> bool" where
  "isMarker (Marker _ _ _ _ _) = True"
| "isMarker _ = False"

fun isConnector :: "statement \<Rightarrow> bool" where
  "isConnector (Connector _ _ _ _) = True"
| "isConnector _ = False"

fun tooltipOf :: "statement \<Rightarrow> string option" where
  "tooltipOf (Marker _ _ _ _ tooltip) = Some tooltip"
| "tooltipOf _ = None"

definition openDisplay :: "config \<Rightarrow> int \<Rightarrow> trade \<Rightarrow> PineScriptTimestamp" where
  "openDisplay cfg now t = convertToPineScriptTimestamp cfg (parseMT4DateToUTC cfg now (openTimeRaw t))"

definition closeDisplay :: "config \<Rightarrow> int \<Rightarrow> trade \<Rightarrow> PineScriptTimestamp" where
  "closeDisplay cfg now t = convertToPineScriptTimestamp cfg (parseMT4DateToUTC cfg now (closeTimeRaw t))"

definition winnerStatements :: "config \<Rightarrow> int \<Rightarrow> (number \<Rightarrow> string) \<Rightarrow> trade \<Rightarrow> statement list" where
  "winnerStatements cfg now numstr t =
     [Caption ''Winner'' (ticket t),
      Marker (openDisplay cfg now t) (openPrice t) ''label.style_diamond'' ''green''
        (tooltipText numstr t),
      Marker (closeDisplay cfg now t) (closePrice t) ''label.style_diamond'' ''green''
        (tooltipText numstr t),
      Connector (openDisplay cfg now t) (openPrice t) (closeDisplay cfg now t) (closePrice t)]"

definition breakevenStatements :: "config \<Rightarrow> int \<Rightarrow> (number \<Rightarrow> string) \<Rightarrow> trade \<Rightarrow> statement list" where
  "breakevenStatements cfg now numstr t =
     [Caption ''Break Even'' (ticket t),
      Marker (openDisplay cfg now t) (openPrice t) ''label.style_circle'' ''blue''
        (tooltipText numstr t)]"

definition loserStatements :: "config \<Rightarrow> int \<Rightarrow> (number \<Rightarrow> string) \<Rightarrow> trade \<Rightarrow> statement list" where
  "loserStatements cfg now numstr t =
     [Caption ''Loser'' (ticket t),
      Marker (openDisplay cfg now t) (openPrice t)
        (if type t = Buy then ''label.style_arrowup'' else ''label.style_arrowdown'') ''red''
        (tooltipText numstr t)]"

definition scriptStatements :: "config \<Rightarrow> int \<Rightarrow> (number \<Rightarrow> string) \<Rightarrow> group \<Rightarrow> statement list" where
  "scriptStatements cfg now numstr data =
     concat (map (winnerStatements cfg now numstr) (winners data))
     @ concat (map (breakevenStatements cfg now numstr) (breakeven data))
     @ concat (map (loserStatements cfg now numstr) (losers data))"

definition twoDecimals :: "string \<Rightarrow> bool" where
  \<comment> \<open>an optional minus sign, one digit or more, a point, exactly two digits\<close>
  "twoDecimals s =
     (let body = (if starts_with s ''-'' then drop 1 s else s);
          n = length body
      in 4 \<le> n
         \<and> list_all is_digit (take (n - 3) body)
         \<and> body ! (n - 3) = CHR ''.''
         \<and> is_digit (body ! (n - 2)) \<and> is_digit (body ! (n - 1)))"

fun splitLines :: "string \<Rightarrow> string list" where
  \<comment> \<open>the lines of a text in which every line ends with a line feed\<close>
  "splitLines [] = []"
| "splitLines (c # cs) =
     (if c = CHR 0x0A then [] # splitLines cs
      else (case splitLines cs of [] \<Rightarrow> [[c]] | l # ls \<Rightarrow> (c # l) # ls))"

section \<open>Example trades\<close>

definition exampleTrade :: "string \<Rightarrow> string \<Rightarrow> rat \<Rightarrow> rat \<Rightarrow> trade" where
  \<comment> \<open>ticket, open time, open price, profit; the other fields are fixed\<close>
  "exampleTrade tk ot op pr =
     \<lparr>ticket = tk, openTimeRaw = ot, type = Buy, size' = Fin 1, item = ''eurusd'',
      openPrice = Fin op, closeTimeRaw = ''2024.01.10 11:00:00'', closePrice = Fin 2,
      profit = Fin pr\<rparr>"


section \<open>Facts about the Date operations\<close>











lemma not_full_match_example: "\<not> full_match ''not a date''"
  by (simp add: full_match_def MT4_DATE_PATTERN_def is_digit_def)

lemma search_example: "regex_search MT4_DATE_PATTERN ''not a date'' = None"
  by (simp add: MT4_DATE_PATTERN_def is_digit_def)

lemma match_here_length: "match_here ps s \<Longrightarrow> length ps \<le> length s"
  by (induction ps s rule: match_here.induct) auto

lemma regex_search_None_iff:
  "(regex_search ps s = None) = (\<forall>pre post. s = pre @ post \<longrightarrow> \<not> match_here ps post)"
proof (induction s)
  case Nil
  show ?case by simp
next
  case (Cons c cs)
  have "(\<forall>pre post. c # cs = pre @ post \<longrightarrow> \<not> match_here ps post)
      = (\<not> match_here ps (c # cs) \<and> (\<forall>pre post. cs = pre @ post \<longrightarrow> \<not> match_here ps post))"
    by (auto simp: Cons_eq_append_conv)
  then show ?case using Cons.IH by simp
qed

lemma regex_search_leftmost:
  assumes "match_here ps (m @ post)" and "length m = length ps"
    and "\<forall>pre' post'. pre @ m @ post = pre' @ post' \<and> length pre' < length pre
           \<longrightarrow> \<not> match_here ps post'"
  shows "regex_search ps (pre @ m @ post) = Some m"
  using assms
proof (induction pre)
  case Nil
  show ?case
  proof (cases "m @ post")
    case Nil
    then show ?thesis using Nil.prems by simp
  next
    case (Cons c cs)
    have "take (length ps) (m @ post) = m" using Nil.prems(2) by simp
    then show ?thesis using Nil.prems(1) Cons by simp
  qed
next
  case (Cons x pre)
  have nomatch: "\<not> match_here ps ((x # pre) @ m @ post)"
    using Cons.prems(3) by (metis append_Nil length_greater_0_conv list.distinct(1) list.size(3))
  have shift: "\<forall>pre' post'. pre @ m @ post = pre' @ post' \<and> length pre' < length pre
           \<longrightarrow> \<not> match_here ps post'"
  proof (intro allI impI)
    fix pre' post'
    assume a: "pre @ m @ post = pre' @ post' \<and> length pre' < length pre"
    then have "(x # pre) @ m @ post = (x # pre') @ post' \<and> length (x # pre') < length (x # pre)"
      by simp
    then show "\<not> match_here ps post'" using Cons.prems(3) by blast
  qed
  have "regex_search ps (pre @ m @ post) = Some m"
    using Cons.IH [OF Cons.prems(1) Cons.prems(2) shift] .
  then show ?case using nomatch by simp
qed

section \<open>Time Reconciler: the claims\<close>

text \<open>
  C1, as amended. The claim asks for a \<open>MalformedTimestamp\<close> error on every string that
  is not exactly of the shape \<open>YYYY.MM.DD HH:MM:SS\<close>. The code never raises. On such a
  string the call completes normally: when no suffix of the string begins with the
  (unanchored) pattern of line 10, line 11 returns the current clock reading; and when
  the pattern occurs, the instant is read from its leftmost occurrence, whatever stands
  before and after it.
\<close>

theorem parseMT4DateToUTC_never_fails:
  assumes "\<not> full_match s"
  shows "parseMT4DateToUTC_call cfg now s = Inr (parseMT4DateToUTC cfg now s)
    \<and> ((\<forall>pre post. s = pre @ post \<longrightarrow> \<not> match_here MT4_DATE_PATTERN post)
          \<longrightarrow> parseMT4DateToUTC cfg now s = now)
    \<and> (\<forall>pre m post.
          s = pre @ m @ post \<and> length m = length MT4_DATE_PATTERN
          \<and> match_here MT4_DATE_PATTERN (m @ post)
          \<and> (\<forall>pre' post'. s = pre' @ post' \<and> length pre' < length pre
                \<longrightarrow> \<not> match_here MT4_DATE_PATTERN post')
          \<longrightarrow> parseMT4DateToUTC cfg now s = instantOfMatch cfg m)"
proof -
  have a: "parseMT4DateToUTC_call cfg now s = Inr (parseMT4DateToUTC cfg now s)"
    by (simp add: parseMT4DateToUTC_call_def)
  have b: "parseMT4DateToUTC cfg now s = now"
    if "\<forall>pre post. s = pre @ post \<longrightarrow> \<not> match_here MT4_DATE_PATTERN post"
    using that regex_search_None_iff [of MT4_DATE_PATTERN s]
    by (simp add: parseMT4DateToUTC_def)
  have c: "parseMT4DateToUTC cfg now s = instantOfMatch cfg m"
    if h: "s = pre @ m @ post \<and> length m = length MT4_DATE_PATTERN
          \<and> match_here MT4_DATE_PATTERN (m @ post)
          \<and> (\<forall>pre' post'. s = pre' @ post' \<and> length pre' < length pre
                \<longrightarrow> \<not> match_here MT4_DATE_PATTERN post')" for pre m post
  proof -
    have "regex_search MT4_DATE_PATTERN (pre @ m @ post) = Some m"
      using h by (intro regex_search_leftmost) auto
    then show ?thesis using h by (simp add: parseMT4DateToUTC_def)
  qed
  show ?thesis using a b c by blast
qed

theorem parseMT4DateToUTC_never_fails_witness:
  "\<not> full_match ''not a date''
   \<and> regex_search MT4_DATE_PATTERN ''not a date'' = None
   \<and> parseMT4DateToUTC_call constants 1700000000000 ''not a date'' = Inr 1700000000000"
proof -
  have n: "\<forall>pre post. ''not a date'' = pre @ post \<longrightarrow> \<not> match_here MT4_DATE_PATTERN post"
    using search_example regex_search_None_iff [of MT4_DATE_PATTERN "''not a date''"] by simp
  have "parseMT4DateToUTC_call constants 1700000000000 ''not a date'' = Inr 1700000000000"
    using parseMT4DateToUTC_never_fails [OF not_full_match_example, of constants 1700000000000] n
    by simp
  then show ?thesis
    using not_full_match_example search_example by (intro conjI)
qed

text \<open>
  C1, the claim as stated, fails: on a string that does not match the anchored pattern
  the call completes normally with the clock reading, and no error names the string.
\<close>

theorem parseMT4DateToUTC_malformed_counterexample:
  "\<not> full_match ''not a date''
   \<and> parseMT4DateToUTC_call constants 1700000000000 ''not a date'' = Inr 1700000000000
   \<and> parseMT4DateToUTC_call constants 1700000000000 ''not a date''
         \<noteq> Inl (MalformedTimestamp ''not a date'')"
  using not_full_match_example search_example
  by (simp add: parseMT4DateToUTC_call_def parseMT4DateToUTC_def)



section \<open>Report Parser: the claims\<close>

lemma scanRows_stops:
  assumes "cells \<noteq> []"
    and "includes_str (cells ! 0) ''Open Trades:'' \<or> includes_str (cells ! 0) ''Working Orders:''"
    and "\<not> includes_str (cells ! 0) ''Closed Transactions:''"
  shows "scanRows conv (before @ cells # after) inClosed trades = scanRows conv before inClosed trades"
proof (induction before arbitrary: inClosed trades)
  case Nil
  show ?case using assms by simp
next
  case (Cons row before)
  show ?case
    by (simp add: Cons.IH split: option.split)
qed

text \<open>
  C5, the code at the failing input. A row of the closed section whose size cell reads
  \<open>abc\<close> is kept, and its size is NaN, not 0: the fallback \<open>|| '0'\<close> of lines 75 to 80
  replaces an empty cell text only, and \<open>parseFloat\<close> of a text without a numeric prefix
  is NaN.
\<close>

theorem unparseable_size_cell_gives_NaN:
  "parseMT4Report conv
     [[''Closed Transactions:''],
      [''100001'', ''2024.01.10 10:00:00'', ''buy'', ''abc'', ''EURUSD'', ''1.1000'', ''0'', ''0'',
       ''2024.01.10 11:00:00'', ''1.1050'', ''0'', ''0'', ''0'', ''50.00'']]
   = [\<lparr>ticket = ''100001'', openTimeRaw = ''2024.01.10 10:00:00'', type = Buy,
        size' = NaN, item = ''eurusd'', openPrice = conv ''1.1000'',
        closeTimeRaw = ''2024.01.10 11:00:00'', closePrice = conv ''1.1050'',
        profit = conv ''50.00''\<rparr>]"
  by code_simp

theorem unparseable_size_cell_gives_NaN_witness:
  "parseMT4Report decimalValue
     [[''Closed Transactions:''],
      [''100001'', ''2024.01.10 10:00:00'', ''buy'', ''abc'', ''EURUSD'', ''1.1000'', ''0'', ''0'',
       ''2024.01.10 11:00:00'', ''1.1050'', ''0'', ''0'', ''0'', ''50.00'']]
   = [\<lparr>ticket = ''100001'', openTimeRaw = ''2024.01.10 10:00:00'', type = Buy,
        size' = NaN, item = ''eurusd'', openPrice = decimalValue ''1.1000'',
        closeTimeRaw = ''2024.01.10 11:00:00'', closePrice = decimalValue ''1.1050'',
        profit = decimalValue ''50.00''\<rparr>]"
  by (rule unparseable_size_cell_gives_NaN)

text \<open>
  C6, as amended. A row whose first cell contains \<open>Open Trades:\<close> or \<open>Working Orders:\<close>,
  and does not contain \<open>Closed Transactions:\<close>, ends the scan: the result is the result
  for the rows before it, whatever follows.
\<close>

theorem rows_after_section_end_ignored:
  assumes "cells \<noteq> []"
    and "includes_str (cells ! 0) ''Open Trades:'' \<or> includes_str (cells ! 0) ''Working Orders:''"
    and "\<not> includes_str (cells ! 0) ''Closed Transactions:''"
  shows "parseMT4Report conv (before @ cells # after) = parseMT4Report conv before"
  unfolding parseMT4Report_def using assms by (rule scanRows_stops)

theorem rows_after_section_end_ignored_witness:
  "parseMT4Report decimalValue
     ([[''Closed Transactions:'']] @ [''Open Trades:''] #
      [[''100001'', ''2024.01.10 10:00:00'', ''buy'', ''1.5'', ''EURUSD'', ''1.5'', ''0'', ''0'',
        ''2024.01.10 11:00:00'', ''1.75'', ''0'', ''0'', ''0'', ''50.00'']])
   = []"
proof -
  have a: "[''Open Trades:''] \<noteq> []" by simp
  have b: "includes_str ([''Open Trades:''] ! 0) ''Open Trades:''
      \<or> includes_str ([''Open Trades:''] ! 0) ''Working Orders:''" by simp
  have c: "\<not> includes_str ([''Open Trades:''] ! 0) ''Closed Transactions:''" by simp
  show ?thesis
    using rows_after_section_end_ignored [OF a b c, of decimalValue "[[''Closed Transactions:'']]"]
    by (simp add: parseMT4Report_def)
qed

text \<open>
  C6, the claim as stated, fails: the test for \<open>Closed Transactions:\<close> comes first and
  continues the loop, so a first cell that contains both markers opens the closed section
  instead of ending the scan, and the 14-cell row after it is in the output.
\<close>

theorem row_after_open_trades_marker_counterexample:
  "includes_str ([''Closed Transactions: none. Open Trades:''] ! 0) ''Open Trades:''
   \<and> map ticket (parseMT4Report decimalValue
        [[''Closed Transactions: none. Open Trades:''],
         [''100001'', ''2024.01.10 10:00:00'', ''buy'', ''1.5'', ''EURUSD'', ''1.5'', ''0'', ''0'',
          ''2024.01.10 11:00:00'', ''1.75'', ''0'', ''0'', ''0'', ''50.00'']])
     = [''100001'']"
  by (simp add: parseMT4Report_def rowToTrade_def trim_def is_ws_def toLowerCase_def
      lower_char_def orElse_def Let_def)

section \<open>Classifier: the first loop\<close>

lemma num_lt_not_NaN: "num_lt a b \<Longrightarrow> a \<noteq> NaN \<and> b \<noteq> NaN"
  by (simp add: num_lt_def)

lemma num_le_refl: "a \<noteq> NaN \<Longrightarrow> num_le a a"
  by (simp add: num_le_def)

lemma num_le_trans: "num_le a b \<Longrightarrow> num_le b c \<Longrightarrow> num_le a c"
  by (auto simp: num_le_def)

lemma num_lt_le_trans: "num_lt a b \<Longrightarrow> num_le b c \<Longrightarrow> num_lt a c"
  by (auto simp: num_le_def num_lt_def)

lemma num_lt_imp_le: "num_lt a b \<Longrightarrow> num_le a b"
  by (auto simp: num_le_def num_lt_def)

lemma num_not_lt: "a \<noteq> NaN \<Longrightarrow> b \<noteq> NaN \<Longrightarrow> (\<not> num_lt a b) = num_le b a"
  by (cases a; cases b) (auto simp: num_le_def num_lt_def)

lemma num_lt_not_le: "num_lt a b \<Longrightarrow> \<not> num_le b a"
  by (auto simp: num_le_def num_lt_def)


lemma updateGroup_lookup:
  "map_of (updateGroup k f grouped) k' =
     (if k' = k then map_option f (map_of grouped k) else map_of grouped k')"
  by (induction grouped) (auto simp: updateGroup_def)

lemma updateGroup_keys: "map fst (updateGroup k f grouped) = map fst grouped"
  by (induction grouped) (auto simp: updateGroup_def)

lemma map_of_snoc:
  "map_of (m @ [(k, v)]) k' = (case map_of m k' of Some x \<Rightarrow> Some x | None \<Rightarrow> if k' = k then Some v else None)"
  by (induction m) auto

lemma addToGroup_single:
  "addToGroup tol g [t] =
     (if isWinner tol t then g\<lparr>winners := winners g @ [t]\<rparr>
      else if isBreakeven tol t then g\<lparr>breakeven := breakeven g @ [t]\<rparr>
      else g\<lparr>losers := losers g @ [t]\<rparr>)"
  by (auto simp: addToGroup_def isWinner_def isBreakeven_def isLoser_def)

lemma addToGroup_append: "addToGroup tol (addToGroup tol g xs) ys = addToGroup tol g (xs @ ys)"
  by (simp add: addToGroup_def)

lemma bucketStep_eq:
  "bucketStep tol grouped t =
     updateGroup (item t) (\<lambda>g. addToGroup tol g [t])
       (if map_of grouped (item t) = None then grouped @ [(item t, emptyGroup)] else grouped)"
proof (cases "num_gt (profit t) tol")
  case True
  then show ?thesis
    by (simp add: bucketStep_def Let_def addToGroup_single isWinner_def)
next
  case False
  show ?thesis
  proof (cases "num_ge (profit t) (num_neg tol) \<and> num_le (profit t) tol")
    case True
    with False show ?thesis
      by (simp add: bucketStep_def Let_def addToGroup_single isWinner_def isBreakeven_def)
  next
    case False
    then have eq: "(num_ge (profit t) (num_neg tol) \<and> num_le (profit t) tol) = False"
      by simp
    from \<open>\<not> num_gt (profit t) tol\<close> show ?thesis
      by (simp add: bucketStep_def Let_def addToGroup_single isWinner_def isBreakeven_def eq)
  qed
qed

lemma bucketStep_lookup:
  "map_of (bucketStep tol grouped t) k =
     (if k = item t
      then Some (addToGroup tol (case map_of grouped k of None \<Rightarrow> emptyGroup | Some g \<Rightarrow> g) [t])
      else map_of grouped k)"
  by (auto simp: bucketStep_eq updateGroup_lookup map_of_snoc simp del: map_of_append
      split: option.splits)

lemma bucket_fold_lookup:
  "map_of (foldl (bucketStep tol) grouped ts) k =
     (case map_of grouped k of
        None \<Rightarrow> if filter (\<lambda>t. item t = k) ts = [] then None
                else Some (addToGroup tol emptyGroup (filter (\<lambda>t. item t = k) ts))
      | Some g \<Rightarrow> Some (addToGroup tol g (filter (\<lambda>t. item t = k) ts)))"
proof (induction ts arbitrary: grouped)
  case Nil
  show ?case by (simp add: addToGroup_def split: option.split)
next
  case (Cons t ts)
  show ?case
    by (simp add: Cons.IH bucketStep_lookup addToGroup_append split: option.split)
qed

lemma bucketTrades_lookup:
  "map_of (bucketTrades tol ts) k =
     (if filter (\<lambda>t. item t = k) ts = [] then None
      else Some (addToGroup tol emptyGroup (filter (\<lambda>t. item t = k) ts)))"
  by (simp add: bucketTrades_def bucket_fold_lookup)

lemma final_lookup:
  "map_of (fst (classifyAndGroupTrades cfg now numstr ts tol)) k =
     map_option (\<lambda>g. g\<lparr>winners := dedupWinners cfg now numstr (winners g)\<rparr>)
       (map_of (bucketTrades tol (sortByOpenTime cfg now ts)) k)"
  by (simp add: classifyAndGroupTrades_def Let_def map_of_map)








lemma sorted_set: "set (sortByOpenTime cfg now xs) = set xs"
  by (simp add: sortByOpenTime_def)





section \<open>Deduplication of winners\<close>

lemma map_of_replace:
  "map_of (map (\<lambda>(k', v'). if k' = k then (k', v) else (k', v')) m) k' =
     (if k' = k then map_option (\<lambda>_. v) (map_of m k) else map_of m k')"
  by (induction m) auto

lemma mapSet_lookup: "map_of (mapSet k v m) k' = (if k' = k then Some v else map_of m k')"
  by (auto simp: mapSet_def map_of_snoc map_of_replace simp del: map_of_append split: option.splits)

lemma mapSet_keys:
  "map fst (mapSet k v m) = (if k \<in> fst ` set m then map fst m else map fst m @ [k])"
proof -
  have "map fst (map (\<lambda>(k', v'). if k' = k then (k', v) else (k', v')) m) = map fst m"
    by (induction m) auto
  then show ?thesis
    by (auto simp: mapSet_def map_of_eq_None_iff)
qed

lemma mapSet_set: "set (mapSet k v m) \<subseteq> set m \<union> {(k, v)}"
  by (auto simp: mapSet_def split: if_splits)

lemma dedupStep_lookup:
  "map_of (dedupStep numstr m w) k =
     (if k = dedupKey numstr w
      then (case map_of m k of
              None \<Rightarrow> Some w
            | Some e \<Rightarrow> if num_gt (profit w) (profit e) then Some w else Some e)
      else map_of m k)"
  by (auto simp: dedupStep_def Let_def mapSet_lookup split: option.splits)

lemma dedupStep_keys:
  "map fst (dedupStep numstr m w) =
     (if dedupKey numstr w \<in> fst ` set m then map fst m else map fst m @ [dedupKey numstr w])"
  by (auto simp: dedupStep_def Let_def mapSet_keys map_of_eq_None_iff split: option.splits
      dest: map_of_SomeD intro: rev_image_eqI)

lemma dedupStep_set:
  "set (dedupStep numstr m w) \<subseteq> set m \<union> {(dedupKey numstr w, w)}"
  using mapSet_set [of "dedupKey numstr w" w m]
  by (auto simp: dedupStep_def Let_def split: option.splits)

lemma keyed_step: "keyed numstr m \<Longrightarrow> keyed numstr (dedupStep numstr m w)"
  unfolding keyed_def using dedupStep_set [of numstr m w]
  by (auto simp: dedupStep_keys)

lemma keyed_fold: "keyed numstr m \<Longrightarrow> keyed numstr (foldl (dedupStep numstr) m ws)"
  by (induction ws arbitrary: m) (auto simp: keyed_step)

lemma dedup_fold_lookup:
  "map_of (foldl (dedupStep numstr) m ws) k =
     best (map_of m k) (filter (\<lambda>w. dedupKey numstr w = k) ws)"
proof (induction ws arbitrary: m)
  case Nil
  show ?case by simp
next
  case (Cons w ws)
  show ?case
    by (cases "map_of m k") (auto simp: Cons.IH dedupStep_lookup)
qed

lemma dedup_fold_values:
  "snd ` set (foldl (dedupStep numstr) m ws) \<subseteq> snd ` set m \<union> set ws"
proof (induction ws arbitrary: m)
  case Nil
  show ?case by simp
next
  case (Cons w ws)
  have "snd ` set (dedupStep numstr m w) \<subseteq> snd ` set m \<union> {w}"
    using dedupStep_set [of numstr m w] by force
  then show ?case
    using Cons.IH [of "dedupStep numstr m w"] by (simp only: foldl_Cons list.set) blast
qed

lemma keyed_values_filter:
  "keyed numstr m \<Longrightarrow>
     filter (\<lambda>u. dedupKey numstr u = k) (map snd m) =
       (case map_of m k of None \<Rightarrow> [] | Some v \<Rightarrow> [v])"
proof (induction m)
  case Nil
  show ?case by simp
next
  case (Cons e m)
  obtain k0 v0 where e: "e = (k0, v0)" by (cases e)
  have km: "keyed numstr m" and kv: "dedupKey numstr v0 = k0" and fresh: "k0 \<notin> fst ` set m"
    using Cons.prems by (auto simp: keyed_def e)
  have rest: "\<forall>(k', v') \<in> set m. dedupKey numstr v' = k'"
    using km by (simp add: keyed_def)
  show ?case
  proof (cases "k0 = k")
    case True
    have "filter (\<lambda>u. dedupKey numstr u = k) (map snd m) = []"
      using rest fresh True kv by (force simp: filter_empty_conv)
    then show ?thesis using True kv by (simp add: e)
  next
    case False
    then show ?thesis using kv Cons.IH [OF km] by (simp add: e)
  qed
qed

lemma uniqueWinners_filter:
  "filter (\<lambda>u. dedupKey numstr u = k) (uniqueWinners numstr ws) =
     (case best None (filter (\<lambda>w. dedupKey numstr w = k) ws) of None \<Rightarrow> [] | Some b \<Rightarrow> [b])"
proof -
  have "keyed numstr (foldl (dedupStep numstr) [] ws)"
    by (rule keyed_fold) (simp add: keyed_def)
  then show ?thesis
    by (simp add: uniqueWinners_def keyed_values_filter dedup_fold_lookup)
qed

lemma uniqueWinners_subset: "set (uniqueWinners numstr ws) \<subseteq> set ws"
  using dedup_fold_values [of numstr "[]" ws] by (simp add: uniqueWinners_def)

lemma isTop_Cons: "isTop (x # xs) u = (num_le (profit x) (profit u) \<and> isTop xs u)"
  by (simp add: isTop_def)

lemma best_Some: "\<exists>b. best (Some e) xs = Some b"
  by (induction xs arbitrary: e) auto

lemma best_find:
  assumes "\<forall>x \<in> set (e # xs). profit x \<noteq> NaN"
  shows "best (Some e) xs = find (isTop (e # xs)) (e # xs)"
  using assms
proof (induction xs arbitrary: e)
  case Nil
  then show ?case by (simp add: isTop_def num_le_refl)
next
  case (Cons w xs)
  have ne: "profit e \<noteq> NaN" and nw: "profit w \<noteq> NaN"
    and nxs: "\<forall>x \<in> set xs. profit x \<noteq> NaN"
    using Cons.prems by auto
  show ?case
  proof (cases "num_gt (profit w) (profit e)")
    case True
    then have lt: "num_lt (profit e) (profit w)" by (simp add: num_gt_def)
    have ih: "best (Some w) xs = find (isTop (w # xs)) (w # xs)"
      using Cons.IH [of w] nw nxs by simp
    have nte: "\<not> isTop (e # w # xs) e"
      using lt by (simp add: isTop_Cons num_lt_not_le)
    have same: "isTop (e # w # xs) u = isTop (w # xs) u" for u
    proof -
      have "num_le (profit e) (profit u)" if "num_le (profit w) (profit u)"
        using that lt num_lt_le_trans num_lt_imp_le by blast
      then show ?thesis by (auto simp: isTop_Cons)
    qed
    have "find (isTop (e # w # xs)) (e # w # xs) = find (isTop (e # w # xs)) (w # xs)"
      using nte by simp
    also have "\<dots> = find (isTop (w # xs)) (w # xs)"
      by (rule find_cong) (simp_all add: same)
    finally show ?thesis using True ih by simp
  next
    case False
    then have le: "num_le (profit w) (profit e)"
      using ne nw by (simp add: num_gt_def num_not_lt)
    have ih: "best (Some e) xs = find (isTop (e # xs)) (e # xs)"
      using Cons.IH [of e] ne nxs by simp
    have same: "isTop (e # w # xs) u = isTop (e # xs) u" for u
    proof -
      have "num_le (profit w) (profit u)" if "num_le (profit e) (profit u)"
        using that le num_le_trans by blast
      then show ?thesis by (auto simp: isTop_Cons)
    qed
    have "find (isTop (e # w # xs)) (e # w # xs) = find (isTop (e # xs)) (e # xs)"
    proof (cases "isTop (e # xs) e")
      case True
      then show ?thesis by (simp add: same)
    next
      case nt: False
      have same': "isTop (e # w # xs) = isTop (e # xs)"
        by (rule ext) (rule same)
      have "\<not> isTop (e # xs) w"
      proof
        assume tw: "isTop (e # xs) w"
        have "num_le (profit u) (profit e)" if "u \<in> set (e # xs)" for u
          using tw that le num_le_trans unfolding isTop_def by blast
        then have "isTop (e # xs) e" unfolding isTop_def by blast
        with nt show False by simp
      qed
      then show ?thesis using nt by (simp add: same')
    qed
    then show ?thesis using False ih by simp
  qed
qed

lemma best_None_find:
  assumes "\<forall>x \<in> set xs. profit x \<noteq> NaN"
  shows "best None xs = find (isTop xs) xs"
proof (cases xs)
  case Nil
  then show ?thesis by simp
next
  case (Cons x xs')
  then show ?thesis using assms best_find [of x xs'] by simp
qed

lemma best_None_Some: "xs \<noteq> [] \<Longrightarrow> \<exists>b. best None xs = Some b"
  by (cases xs) (auto simp: best_Some)

lemma split_at_first_char:
  "c \<notin> set xs \<Longrightarrow> c \<notin> set xs' \<Longrightarrow> xs @ c # ys = xs' @ c # ys' \<Longrightarrow> xs = xs' \<and> ys = ys'"
proof (induction xs arbitrary: xs')
  case Nil
  then show ?case by (cases xs') auto
next
  case (Cons x xs)
  then show ?case by (cases xs') auto
qed

lemma split_at_last_char:
  assumes "r1 @ c # s1 = r2 @ c # s2" and "c \<notin> set s1" and "c \<notin> set s2"
  shows "r1 = r2 \<and> s1 = s2"
proof -
  have eq: "rev s1 @ c # rev r1 = rev s2 @ c # rev r2"
    using arg_cong [OF assms(1), of rev] by simp
  have n1: "c \<notin> set (rev s1)" and n2: "c \<notin> set (rev s2)"
    using assms(2,3) by simp_all
  have "rev s1 = rev s2 \<and> rev r1 = rev r2"
    using n1 n2 eq by (rule split_at_first_char)
  then show ?thesis by simp
qed

lemma dedupKey_eq_iff:
  assumes "numstrOk numstr ws" and "a \<in> set ws" and "b \<in> set ws"
  shows "(dedupKey numstr a = dedupKey numstr b) = sameKey a b"
proof
  assume eq: "dedupKey numstr a = dedupKey numstr b"
  have ua: "CHR ''_'' \<notin> set (numstr (openPrice a))" and ub: "CHR ''_'' \<notin> set (numstr (openPrice b))"
    using assms by (auto simp: numstrOk_def)
  have "openTimeRaw a @ CHR ''_'' # numstr (openPrice a)
      = openTimeRaw b @ CHR ''_'' # numstr (openPrice b)"
    using eq by (simp add: dedupKey_def)
  then have "openTimeRaw a = openTimeRaw b \<and> numstr (openPrice a) = numstr (openPrice b)"
    using ua ub by (rule split_at_last_char)
  moreover have "numstr (openPrice a) = numstr (openPrice b) \<longrightarrow> openPrice a = openPrice b"
    using assms by (auto simp: numstrOk_def)
  ultimately show "sameKey a b" by (simp add: sameKey_def)
next
  assume "sameKey a b"
  then show "dedupKey numstr a = dedupKey numstr b"
    by (simp add: sameKey_def dedupKey_def)
qed

lemma sameKey_refl: "sameKey w w"
  by (simp add: sameKey_def)

lemma sameKey_sym: "sameKey a b = sameKey b a"
  by (auto simp: sameKey_def)

lemma dedup_survivor:
  assumes ok: "numstrOk numstr ws" and nn: "\<forall>x \<in> set ws. profit x \<noteq> NaN" and w: "w \<in> set ws"
  shows "\<exists>b. find (isTop (filter (sameKey w) ws)) (filter (sameKey w) ws) = Some b
    \<and> filter (sameKey w) (uniqueWinners numstr ws) = [b]
    \<and> filter (sameKey w) (dedupWinners cfg now numstr ws) = [b]"
proof -
  let ?X = "filter (sameKey w) ws"
  let ?U = "uniqueWinners numstr ws"
  have keyX: "filter (\<lambda>x. dedupKey numstr x = dedupKey numstr w) ws = ?X"
    by (rule filter_cong) (auto simp: dedupKey_eq_iff [OF ok _ w] sameKey_sym)
  have keyU: "filter (sameKey w) ?U = filter (\<lambda>x. dedupKey numstr x = dedupKey numstr w) ?U"
  proof (rule filter_cong)
    fix x assume "x \<in> set ?U"
    then have "x \<in> set ws" using uniqueWinners_subset by blast
    then show "sameKey w x = (dedupKey numstr x = dedupKey numstr w)"
      by (simp add: dedupKey_eq_iff [OF ok _ w] sameKey_sym)
  qed simp
  have "w \<in> set ?X" using w by (simp add: sameKey_refl)
  then have "?X \<noteq> []" by (metis empty_iff empty_set)
  then obtain b where b: "best None ?X = Some b"
    using best_None_Some by blast
  have nnX: "\<forall>x \<in> set ?X. profit x \<noteq> NaN" using nn by simp
  have f: "find (isTop ?X) ?X = Some b"
    using best_None_find [OF nnX] b by simp
  have u: "filter (sameKey w) ?U = [b]"
    by (simp add: keyU uniqueWinners_filter keyX b)
  have d: "filter (sameKey w) (dedupWinners cfg now numstr ws) = [b]"
    by (simp add: dedupWinners_def sortByOpenTime_def filter_sort u)
  show ?thesis using f u d by blast
qed

section \<open>Classifier: the result\<close>

lemma numstrOk_subset: "numstrOk numstr ts \<Longrightarrow> set ws \<subseteq> set ts \<Longrightarrow> numstrOk numstr ws"
  unfolding numstrOk_def by blast

lemma dedupWinners_subset: "set (dedupWinners cfg now numstr ws) \<subseteq> set ws"
  using uniqueWinners_subset [of numstr ws] by (simp add: dedupWinners_def sortByOpenTime_def)

lemma bucket_group_lists:
  assumes "map_of (bucketTrades tol ts) k = Some g"
  shows "winners g = filter (\<lambda>t. item t = k \<and> isWinner tol t) ts
    \<and> breakeven g = filter (\<lambda>t. item t = k \<and> isBreakeven tol t) ts
    \<and> losers g = filter (\<lambda>t. item t = k \<and> isLoser tol t) ts"
proof -
  have "g = addToGroup tol emptyGroup (filter (\<lambda>t. item t = k) ts)"
    using assms by (simp add: bucketTrades_lookup split: if_splits)
  then show ?thesis
    by (simp add: addToGroup_def emptyGroup_def conj_commute)
qed

lemma final_group:
  assumes "map_of (fst (classifyAndGroupTrades cfg now numstr allTrades tol)) k = Some g'"
  shows "\<exists>g. map_of (bucketTrades tol (sortByOpenTime cfg now allTrades)) k = Some g
    \<and> g' = g\<lparr>winners := dedupWinners cfg now numstr (winners g)\<rparr>"
  using assms by (auto simp: final_lookup)

lemma find_Some_member: "find P xs = Some x \<Longrightarrow> x \<in> set xs \<and> P x"
  by (induction xs) (auto split: if_splits)

lemma winners_not_NaN:
  "\<forall>x \<in> set (filter (\<lambda>t. item t = k \<and> isWinner tol t) ts). profit x \<noteq> NaN"
  by (auto simp: isWinner_def num_gt_def num_lt_def)

text \<open>
  C3. Let a group of the result be given, and let the bucketed winners of its item be the
  trades of that item with a profit above the tolerance, in sorted order (the winners
  list when the first loop ends). The winners list of the result holds only bucketed
  winners, and for every bucketed winner it holds exactly one trade with the same open
  time text and open price, and no bucketed winner with that key has a higher profit.
  The breakeven and losers lists are those of the first loop, untouched: they hold every
  trade of the item that the first loop put there. The conversion of numbers to strings
  is assumed to give different open prices different texts, without underscore.
\<close>

theorem winners_deduplicated:
  assumes res: "map_of (fst (classifyAndGroupTrades cfg now numstr allTrades beTolerance)) k = Some g'"
    and ok: "numstrOk numstr allTrades"
  shows "\<exists>g. map_of (bucketTrades beTolerance (sortByOpenTime cfg now allTrades)) k = Some g
    \<and> winners g = filter (\<lambda>t. item t = k \<and> num_gt (profit t) beTolerance)
                     (sortByOpenTime cfg now allTrades)
    \<and> set (winners g') \<subseteq> set (winners g)
    \<and> (\<forall>w \<in> set (winners g). \<exists>b.
          filter (sameKey w) (winners g') = [b] \<and> b \<in> set (winners g)
          \<and> (\<forall>v \<in> set (winners g). sameKey w v \<longrightarrow> num_le (profit v) (profit b)))
    \<and> breakeven g' = breakeven g \<and> losers g' = losers g
    \<and> mset (breakeven g') = mset (filter (\<lambda>t. item t = k \<and> isBreakeven beTolerance t) allTrades)
    \<and> mset (losers g') = mset (filter (\<lambda>t. item t = k \<and> isLoser beTolerance t) allTrades)"
proof -
  let ?S = "sortByOpenTime cfg now allTrades"
  obtain g where g: "map_of (bucketTrades beTolerance ?S) k = Some g"
    and g': "g' = g\<lparr>winners := dedupWinners cfg now numstr (winners g)\<rparr>"
    using final_group [OF res] by blast
  note lists = bucket_group_lists [OF g]
  have w: "winners g = filter (\<lambda>t. item t = k \<and> isWinner beTolerance t) ?S"
    using lists by simp
  have sub: "set (winners g) \<subseteq> set allTrades"
    unfolding w by (auto simp: sorted_set)
  have okW: "numstrOk numstr (winners g)"
    using ok sub by (rule numstrOk_subset)
  have nn: "\<forall>x \<in> set (winners g). profit x \<noteq> NaN"
    unfolding w by (rule winners_not_NaN)
  have surv: "\<exists>b. filter (sameKey w) (winners g') = [b] \<and> b \<in> set (winners g)
      \<and> (\<forall>v \<in> set (winners g). sameKey w v \<longrightarrow> num_le (profit v) (profit b))"
    if wm: "w \<in> set (winners g)" for w
  proof -
    let ?X = "filter (sameKey w) (winners g)"
    obtain b where f: "find (isTop ?X) ?X = Some b"
      and d: "filter (sameKey w) (dedupWinners cfg now numstr (winners g)) = [b]"
      using dedup_survivor [OF okW nn wm, of cfg now] by blast
    have "b \<in> set ?X" and "isTop ?X b"
      using find_Some_member [OF f] by simp_all
    then have "b \<in> set (winners g)"
      and "\<forall>v \<in> set (winners g). sameKey w v \<longrightarrow> num_le (profit v) (profit b)"
      by (auto simp: isTop_def)
    then show ?thesis using d by (simp add: g')
  qed
  have c1: "winners g = filter (\<lambda>t. item t = k \<and> num_gt (profit t) beTolerance) ?S"
    by (simp add: w isWinner_def)
  have c2: "set (winners g') \<subseteq> set (winners g)"
    using dedupWinners_subset by (simp add: g')
  have c3: "breakeven g' = breakeven g \<and> losers g' = losers g"
    by (simp add: g')
  have c4: "mset (breakeven g') = mset (filter (\<lambda>t. item t = k \<and> isBreakeven beTolerance t) allTrades)"
    using lists by (simp add: g' sortByOpenTime_def)
  have c5: "mset (losers g') = mset (filter (\<lambda>t. item t = k \<and> isLoser beTolerance t) allTrades)"
    using lists by (simp add: g' sortByOpenTime_def)
  show ?thesis
    using g c1 c2 surv c3 c4 c5 by blast
qed

lemma dedup_example_ok:
  "numstrOk showNumber
     [exampleTrade ''T1'' ''2024.01.10 10:00:00'' (3 / 2) 10,
      exampleTrade ''T2'' ''2024.01.10 10:00:00'' (3 / 2) 15]"
  by code_simp

lemma dedup_example_result:
  "map_of (fst (classifyAndGroupTrades constants 0 showNumber
     [exampleTrade ''T1'' ''2024.01.10 10:00:00'' (3 / 2) 10,
      exampleTrade ''T2'' ''2024.01.10 10:00:00'' (3 / 2) 15] (Fin 0))) ''eurusd''
   = Some \<lparr>winners = [exampleTrade ''T2'' ''2024.01.10 10:00:00'' (3 / 2) 15],
            breakeven = [], losers = []\<rparr>"
  by code_simp

lemma dedup_example_bucketed:
  "filter (\<lambda>t. item t = ''eurusd'' \<and> num_gt (profit t) (Fin 0))
     (sortByOpenTime constants 0
        [exampleTrade ''T1'' ''2024.01.10 10:00:00'' (3 / 2) 10,
         exampleTrade ''T2'' ''2024.01.10 10:00:00'' (3 / 2) 15])
   = [exampleTrade ''T1'' ''2024.01.10 10:00:00'' (3 / 2) 10,
      exampleTrade ''T2'' ''2024.01.10 10:00:00'' (3 / 2) 15]"
  by code_simp

theorem winners_deduplicated_witness:
  "numstrOk showNumber
     [exampleTrade ''T1'' ''2024.01.10 10:00:00'' (3 / 2) 10,
      exampleTrade ''T2'' ''2024.01.10 10:00:00'' (3 / 2) 15]
   \<and> map_of (fst (classifyAndGroupTrades constants 0 showNumber
        [exampleTrade ''T1'' ''2024.01.10 10:00:00'' (3 / 2) 10,
         exampleTrade ''T2'' ''2024.01.10 10:00:00'' (3 / 2) 15] (Fin 0))) ''eurusd''
      = Some \<lparr>winners = [exampleTrade ''T2'' ''2024.01.10 10:00:00'' (3 / 2) 15],
               breakeven = [], losers = []\<rparr>
   \<and> (\<exists>g :: group.
          winners g = [exampleTrade ''T1'' ''2024.01.10 10:00:00'' (3 / 2) 10,
                       exampleTrade ''T2'' ''2024.01.10 10:00:00'' (3 / 2) 15]
          \<and> (\<forall>w \<in> set (winners g). \<exists>b.
                filter (sameKey w) [exampleTrade ''T2'' ''2024.01.10 10:00:00'' (3 / 2) 15] = [b]
                \<and> b \<in> set (winners g)
                \<and> (\<forall>v \<in> set (winners g). sameKey w v \<longrightarrow> num_le (profit v) (profit b))))"
proof -
  have "\<exists>g :: group.
      winners g = [exampleTrade ''T1'' ''2024.01.10 10:00:00'' (3 / 2) 10,
                   exampleTrade ''T2'' ''2024.01.10 10:00:00'' (3 / 2) 15]
      \<and> (\<forall>w \<in> set (winners g). \<exists>b.
            filter (sameKey w) [exampleTrade ''T2'' ''2024.01.10 10:00:00'' (3 / 2) 15] = [b]
            \<and> b \<in> set (winners g)
            \<and> (\<forall>v \<in> set (winners g). sameKey w v \<longrightarrow> num_le (profit v) (profit b)))"
    using winners_deduplicated [OF dedup_example_result dedup_example_ok]
    unfolding dedup_example_bucketed group.select_convs
    by (elim exE conjE, intro exI conjI)
  then show ?thesis
    using dedup_example_ok dedup_example_result by (intro conjI)
qed

text \<open>
  C10. Among the bucketed winners that share one key, taken in sorted input order, the
  trade kept in the result is the first one that no other of them exceeds in profit:
  when several are tied for the highest profit, it is the earliest of them, and the
  later ones are dropped.
\<close>

theorem earliest_of_tied_winners_kept:
  assumes res: "map_of (fst (classifyAndGroupTrades cfg now numstr allTrades beTolerance)) k = Some g'"
    and ok: "numstrOk numstr allTrades"
  shows "\<exists>g. map_of (bucketTrades beTolerance (sortByOpenTime cfg now allTrades)) k = Some g
    \<and> (\<forall>w \<in> set (winners g). \<exists>b i.
          filter (sameKey w) (winners g') = [b]
          \<and> i < length (filter (sameKey w) (winners g))
          \<and> filter (sameKey w) (winners g) ! i = b
          \<and> isTop (filter (sameKey w) (winners g)) b
          \<and> (\<forall>j < i. \<not> isTop (filter (sameKey w) (winners g)) (filter (sameKey w) (winners g) ! j)))"
proof -
  let ?S = "sortByOpenTime cfg now allTrades"
  obtain g where g: "map_of (bucketTrades beTolerance ?S) k = Some g"
    and g': "g' = g\<lparr>winners := dedupWinners cfg now numstr (winners g)\<rparr>"
    using final_group [OF res] by blast
  have w: "winners g = filter (\<lambda>t. item t = k \<and> isWinner beTolerance t) ?S"
    using bucket_group_lists [OF g] by simp
  have sub: "set (winners g) \<subseteq> set allTrades"
    unfolding w by (auto simp: sorted_set)
  have okW: "numstrOk numstr (winners g)"
    using ok sub by (rule numstrOk_subset)
  have nn: "\<forall>x \<in> set (winners g). profit x \<noteq> NaN"
    unfolding w by (rule winners_not_NaN)
  have "\<exists>b i. filter (sameKey w) (winners g') = [b]
      \<and> i < length (filter (sameKey w) (winners g))
      \<and> filter (sameKey w) (winners g) ! i = b
      \<and> isTop (filter (sameKey w) (winners g)) b
      \<and> (\<forall>j < i. \<not> isTop (filter (sameKey w) (winners g)) (filter (sameKey w) (winners g) ! j))"
    if wm: "w \<in> set (winners g)" for w
  proof -
    let ?X = "filter (sameKey w) (winners g)"
    obtain b where f: "find (isTop ?X) ?X = Some b"
      and d: "filter (sameKey w) (dedupWinners cfg now numstr (winners g)) = [b]"
      using dedup_survivor [OF okW nn wm, of cfg now] by blast
    obtain i where "i < length ?X" and "isTop ?X (?X ! i)" and "b = ?X ! i"
      and "\<forall>j < i. \<not> isTop ?X (?X ! j)"
      using f unfolding find_Some_iff by blast
    then show ?thesis using d by (auto simp: g')
  qed
  then show ?thesis using g by blast
qed

lemma tie_example_ok:
  "numstrOk showNumber
     [exampleTrade ''T1'' ''2024.01.10 10:00:00'' (3 / 2) 15,
      exampleTrade ''T2'' ''2024.01.10 10:00:00'' (3 / 2) 15]"
  by code_simp

lemma tie_example_result:
  "map_of (fst (classifyAndGroupTrades constants 0 showNumber
     [exampleTrade ''T1'' ''2024.01.10 10:00:00'' (3 / 2) 15,
      exampleTrade ''T2'' ''2024.01.10 10:00:00'' (3 / 2) 15] (Fin 0))) ''eurusd''
   = Some \<lparr>winners = [exampleTrade ''T1'' ''2024.01.10 10:00:00'' (3 / 2) 15],
            breakeven = [], losers = []\<rparr>"
  by code_simp

theorem earliest_of_tied_winners_kept_witness:
  "numstrOk showNumber
     [exampleTrade ''T1'' ''2024.01.10 10:00:00'' (3 / 2) 15,
      exampleTrade ''T2'' ''2024.01.10 10:00:00'' (3 / 2) 15]
   \<and> map_of (fst (classifyAndGroupTrades constants 0 showNumber
        [exampleTrade ''T1'' ''2024.01.10 10:00:00'' (3 / 2) 15,
         exampleTrade ''T2'' ''2024.01.10 10:00:00'' (3 / 2) 15] (Fin 0))) ''eurusd''
      = Some \<lparr>winners = [exampleTrade ''T1'' ''2024.01.10 10:00:00'' (3 / 2) 15],
               breakeven = [], losers = []\<rparr>
   \<and> (\<exists>g. map_of (bucketTrades (Fin 0) (sortByOpenTime constants 0
               [exampleTrade ''T1'' ''2024.01.10 10:00:00'' (3 / 2) 15,
                exampleTrade ''T2'' ''2024.01.10 10:00:00'' (3 / 2) 15])) ''eurusd'' = Some g)"
  using earliest_of_tied_winners_kept [OF tie_example_result tie_example_ok]
    tie_example_ok tie_example_result
  by blast

section \<open>Classifier: order of the lists, and the argument array\<close>











text \<open>
  C9, the code at the failing input. \<open>allTrades.sort(...)\<close> sorts the caller's array in
  place. An array given with the later trade first holds the earlier trade first when
  the call returns.
\<close>

theorem classify_reorders_input_array:
  "snd (classifyAndGroupTrades constants 0 showNumber
     [exampleTrade ''T2'' ''2024.01.10 11:00:00'' (3 / 2) 10,
      exampleTrade ''T1'' ''2024.01.10 10:00:00'' (3 / 2) 15] (Fin 0))
   = [exampleTrade ''T1'' ''2024.01.10 10:00:00'' (3 / 2) 15,
      exampleTrade ''T2'' ''2024.01.10 11:00:00'' (3 / 2) 10]
   \<and> snd (classifyAndGroupTrades constants 0 showNumber
     [exampleTrade ''T2'' ''2024.01.10 11:00:00'' (3 / 2) 10,
      exampleTrade ''T1'' ''2024.01.10 10:00:00'' (3 / 2) 15] (Fin 0))
   \<noteq> [exampleTrade ''T2'' ''2024.01.10 11:00:00'' (3 / 2) 10,
      exampleTrade ''T1'' ''2024.01.10 10:00:00'' (3 / 2) 15]"
  by code_simp

theorem classify_reorders_input_array_witness:
  "snd (classifyAndGroupTrades constants 0 showNumber
     [exampleTrade ''T2'' ''2024.01.10 11:00:00'' (3 / 2) 10,
      exampleTrade ''T1'' ''2024.01.10 10:00:00'' (3 / 2) 15] (Fin 0))
   = [exampleTrade ''T1'' ''2024.01.10 10:00:00'' (3 / 2) 15,
      exampleTrade ''T2'' ''2024.01.10 11:00:00'' (3 / 2) 10]"
  using classify_reorders_input_array by (rule conjunct1)

section \<open>Script Generator: the claims\<close>

lemma foldl_append_blocks: "foldl (\<lambda>code t. code @ f t) acc xs = acc @ concat (map f xs)"
  by (induction xs arbitrary: acc) auto

lemma winner_render:
  "winnerBlock cfg now numstr t = concat (map (render numstr) (winnerStatements cfg now numstr t))"
  by (simp add: winnerBlock_def winnerStatements_def openDisplay_def closeDisplay_def Let_def)

lemma breakeven_render:
  "breakevenBlock cfg now numstr t = concat (map (render numstr) (breakevenStatements cfg now numstr t))"
  by (simp add: breakevenBlock_def breakevenStatements_def openDisplay_def Let_def)

lemma loser_render:
  "loserBlock cfg now numstr t = concat (map (render numstr) (loserStatements cfg now numstr t))"
  by (simp add: loserBlock_def loserStatements_def openDisplay_def Let_def)

lemma concat_render_blocks:
  "concat (map (\<lambda>t. concat (map r (f t))) xs) = concat (map r (concat (map f xs)))"
  by (induction xs) auto

lemma script_is_rendering:
  "generatePineScriptForItem cfg now numstr itemName data
     = scriptHeader itemName @ concat (map (render numstr) (scriptStatements cfg now numstr data))"
  by (simp add: generatePineScriptForItem_def Let_def foldl_append_blocks winner_render
      breakeven_render loser_render concat_render_blocks scriptStatements_def)

lemma digit_chars: "\<forall>d \<in> set [0..<10]. is_digit (char_of (48 + d :: nat))"
  by code_simp

lemma digit_char: "d < 10 \<Longrightarrow> is_digit (char_of (48 + d :: nat))"
  using digit_chars by simp

lemma show_nat_digits: "list_all is_digit (show_nat n)"
proof (induction n rule: show_nat.induct)
  case (1 n)
  show ?case
  proof (cases "n < 10")
    case True
    then show ?thesis by (subst show_nat.simps) (simp add: digit_char)
  next
    case False
    then show ?thesis using 1 by (subst show_nat.simps) (simp add: digit_char)
  qed
qed

lemma minus_not_digit: "\<not> is_digit (CHR ''-'')"
  by (simp add: is_digit_def)

lemma last_two:
  assumes "2 \<le> length (ds :: 'a list)"
  shows "\<exists>pre a b. ds = pre @ [a, b]"
proof (cases ds rule: rev_cases)
  case Nil
  then show ?thesis using assms by simp
next
  case (snoc ys b)
  show ?thesis
  proof (cases ys rule: rev_cases)
    case Nil
    then show ?thesis using assms snoc by simp
  next
    case (snoc pre a)
    then show ?thesis using \<open>ds = ys @ [b]\<close> by simp
  qed
qed

lemma twoDecimals_body:
  assumes d: "list_all is_digit ds" and l: "3 \<le> length ds"
  shows "(let body = take (length ds - 2) ds @ ''.'' @ drop (length ds - 2) ds; n = length body
          in 4 \<le> n \<and> list_all is_digit (take (n - 3) body) \<and> body ! (n - 3) = CHR ''.''
             \<and> is_digit (body ! (n - 2)) \<and> is_digit (body ! (n - 1)))"
proof -
  obtain pre a b where ds: "ds = pre @ [a, b]"
    using last_two [of ds] l by auto
  have pre: "pre \<noteq> []" using l ds by auto
  have dg: "list_all is_digit pre" "is_digit a" "is_digit b"
    using d ds by simp_all
  have n2: "length pre + 3 - 2 = length pre + 1" and n1: "length pre + 3 - 1 = length pre + 2"
    by simp_all
  have p1: "Suc 0 \<le> length pre" using pre by (cases pre) auto
  show ?thesis
    using pre dg p1 by (simp add: ds Let_def nth_append n2 n1)
qed

lemma toFixed2_two_decimals:
  assumes "\<bar>q\<bar> < 10 ^ 21"
  shows "twoDecimals (toFixed2 numstr (Fin q))"
proof -
  define m where "m = show_nat (nat \<lfloor>\<bar>q\<bar> * 100 + 1 / 2\<rfloor>)"
  define ds where "ds = (if length m \<le> 2 then replicate (3 - length m) (CHR ''0'') @ m else m)"
  have md: "list_all is_digit m" by (simp add: m_def show_nat_digits)
  have z: "is_digit (CHR ''0'')" by (simp add: is_digit_def)
  have dd: "list_all is_digit ds"
    using md z by (simp add: ds_def list_all_iff)
  have dl: "3 \<le> length ds" by (simp add: ds_def)
  let ?body = "take (length ds - 2) ds @ ''.'' @ drop (length ds - 2) ds"
  have fx: "toFixed2 numstr (Fin q) = (if q < 0 then ''-'' else []) @ ?body"
    using assms by (simp add: toFixed2_def Let_def m_def ds_def)
  obtain c cs where hd: "take (length ds - 2) ds = c # cs" and cd: "is_digit c"
  proof -
    obtain pre a b where ds: "ds = pre @ [a, b]"
      using last_two [of ds] dl by auto
    have "pre \<noteq> []" using dl ds by auto
    then obtain c cs where pc: "pre = c # cs" by (cases pre) auto
    moreover have "is_digit c" using dd ds pc by simp
    ultimately show ?thesis using that ds by simp
  qed
  have nm: "c \<noteq> CHR ''-''" using cd minus_not_digit by auto
  have body: "(if starts_with (toFixed2 numstr (Fin q)) ''-''
               then drop 1 (toFixed2 numstr (Fin q)) else toFixed2 numstr (Fin q)) = ?body"
    using nm by (simp add: fx hd)
  show ?thesis
    unfolding twoDecimals_def body using twoDecimals_body [OF dd dl] .
qed

text \<open>
  C8, as amended. The script is the fixed header followed by the statements of all
  winners, then of all breakeven trades, then of all losers, each list in its order. A
  winner gives two markers (\<open>label.new\<close>) and one connecting line (\<open>line.new\<close>), a
  breakeven trade and a loser give one marker and no line. Every marker carries the
  tooltip made of the ticket, the side and \<open>profit.toFixed(2)\<close>; the line carries no
  tooltip. The profit text has exactly two decimals when the profit is finite and below
  10^21 in magnitude.
\<close>

theorem script_structure:
  "generatePineScriptForItem cfg now numstr itemName data
     = scriptHeader itemName
       @ concat (map (render numstr)
           (concat (map (winnerStatements cfg now numstr) (winners data))
            @ concat (map (breakevenStatements cfg now numstr) (breakeven data))
            @ concat (map (loserStatements cfg now numstr) (losers data))))
   \<and> (\<forall>t. length (filter isMarker (winnerStatements cfg now numstr t)) = 2
          \<and> length (filter isConnector (winnerStatements cfg now numstr t)) = 1
          \<and> length (filter isMarker (breakevenStatements cfg now numstr t)) = 1
          \<and> filter isConnector (breakevenStatements cfg now numstr t) = []
          \<and> length (filter isMarker (loserStatements cfg now numstr t)) = 1
          \<and> filter isConnector (loserStatements cfg now numstr t) = [])
   \<and> (\<forall>t. \<forall>s \<in> set (winnerStatements cfg now numstr t)
                  \<union> set (breakevenStatements cfg now numstr t)
                  \<union> set (loserStatements cfg now numstr t).
          (isMarker s \<longrightarrow>
             tooltipOf s = Some (''Ticket: '' @ ticket t @ [CHR 0x5C] @ ''nType: ''
               @ sideText (type t) @ [CHR 0x5C] @ ''nProfit: '' @ toFixed2 numstr (profit t)))
          \<and> (isConnector s \<longrightarrow> tooltipOf s = None))
   \<and> (\<forall>t q. profit t = Fin q \<and> \<bar>q\<bar> < 10 ^ 21 \<longrightarrow> twoDecimals (toFixed2 numstr (profit t)))"
proof -
  have a: "generatePineScriptForItem cfg now numstr itemName data
     = scriptHeader itemName
       @ concat (map (render numstr)
           (concat (map (winnerStatements cfg now numstr) (winners data))
            @ concat (map (breakevenStatements cfg now numstr) (breakeven data))
            @ concat (map (loserStatements cfg now numstr) (losers data))))"
    using script_is_rendering [of cfg now numstr itemName data]
    by (simp only: scriptStatements_def)
  have b: "length (filter isMarker (winnerStatements cfg now numstr t)) = 2
          \<and> length (filter isConnector (winnerStatements cfg now numstr t)) = 1
          \<and> length (filter isMarker (breakevenStatements cfg now numstr t)) = 1
          \<and> filter isConnector (breakevenStatements cfg now numstr t) = []
          \<and> length (filter isMarker (loserStatements cfg now numstr t)) = 1
          \<and> filter isConnector (loserStatements cfg now numstr t) = []" for t
    by (simp add: winnerStatements_def breakevenStatements_def loserStatements_def)
  have c: "(isMarker s \<longrightarrow>
             tooltipOf s = Some (''Ticket: '' @ ticket t @ [CHR 0x5C] @ ''nType: ''
               @ sideText (type t) @ [CHR 0x5C] @ ''nProfit: '' @ toFixed2 numstr (profit t)))
          \<and> (isConnector s \<longrightarrow> tooltipOf s = None)"
    if "s \<in> set (winnerStatements cfg now numstr t)
                  \<union> set (breakevenStatements cfg now numstr t)
                  \<union> set (loserStatements cfg now numstr t)" for s t
    using that
    by (auto simp: winnerStatements_def breakevenStatements_def loserStatements_def
        tooltipText_def)
  have d: "twoDecimals (toFixed2 numstr (profit t))" if "profit t = Fin q \<and> \<bar>q\<bar> < 10 ^ 21" for t q
    using that toFixed2_two_decimals [of q numstr] by simp
  show ?thesis
    using a b c d by blast
qed

lemma script_example_profit:
  "profit (exampleTrade ''100001'' ''2024.01.10 10:00:00'' (3 / 2) 50) = Fin 50 \<and> \<bar>50 :: rat\<bar> < 10 ^ 21"
  by (simp add: exampleTrade_def)

theorem script_structure_witness:
  "profit (exampleTrade ''100001'' ''2024.01.10 10:00:00'' (3 / 2) 50) = Fin 50
   \<and> twoDecimals (toFixed2 showNumber (profit (exampleTrade ''100001'' ''2024.01.10 10:00:00'' (3 / 2) 50)))
   \<and> length (filter isMarker (winnerStatements constants 0 showNumber
         (exampleTrade ''100001'' ''2024.01.10 10:00:00'' (3 / 2) 50))) = 2"
proof -
  note s = script_structure [of constants 0 showNumber "''eurusd''"
      "\<lparr>winners = [exampleTrade ''100001'' ''2024.01.10 10:00:00'' (3 / 2) 50],
        breakeven = [], losers = []\<rparr>"]
  have d: "\<forall>t q. profit t = Fin q \<and> \<bar>q\<bar> < 10 ^ 21 \<longrightarrow> twoDecimals (toFixed2 showNumber (profit t))"
    using s by (elim conjE)
  have b: "length (filter isMarker (winnerStatements constants 0 showNumber
         (exampleTrade ''100001'' ''2024.01.10 10:00:00'' (3 / 2) 50))) = 2"
    using s by (elim conjE allE) 
  have "twoDecimals (toFixed2 showNumber (profit (exampleTrade ''100001'' ''2024.01.10 10:00:00'' (3 / 2) 50)))"
    using d script_example_profit by blast
  then show ?thesis
    using b script_example_profit by (intro conjI) (elim conjE)+
qed

lemma line_example:
  "map (\<lambda>l. includes_str l ''tooltip'')
     (filter (\<lambda>l. starts_with l ''    line.new('')
        (splitLines (winnerBlock constants 0 showNumber
           (exampleTrade ''100001'' ''2024.01.10 10:00:00'' (3 / 2) 50))))
   = [False]"
  by code_simp

lemma nan_example:
  "map (\<lambda>l. includes_str l ''Profit: NaN'')
     (filter (\<lambda>l. starts_with l ''    label.new('')
        (splitLines (loserBlock constants 0 showNumber
           ((exampleTrade ''100003'' ''2024.01.10 10:00:00'' (3 / 2) 0)\<lparr>profit := NaN\<rparr>))))
   = [True]"
  by code_simp

lemma nan_not_two_decimals: "\<not> twoDecimals ''NaN''"
  by code_simp

text \<open>
  C8, the claim as stated, fails in two places. The \<open>line.new\<close> statement of a winner has
  no tooltip at all; and a profit that is not finite is printed as the plain conversion
  prints it, so the tooltip of a loser whose profit is NaN reads \<open>Profit: NaN\<close>.
\<close>

theorem line_statement_tooltip_counterexample:
  "generatePineScriptForItem constants 0 showNumber ''eurusd''
     \<lparr>winners = [exampleTrade ''100001'' ''2024.01.10 10:00:00'' (3 / 2) 50],
      breakeven = [],
      losers = [(exampleTrade ''100003'' ''2024.01.10 10:00:00'' (3 / 2) 0)\<lparr>profit := NaN\<rparr>]\<rparr>
   = scriptHeader ''eurusd''
     @ winnerBlock constants 0 showNumber (exampleTrade ''100001'' ''2024.01.10 10:00:00'' (3 / 2) 50)
     @ loserBlock constants 0 showNumber
         ((exampleTrade ''100003'' ''2024.01.10 10:00:00'' (3 / 2) 0)\<lparr>profit := NaN\<rparr>)
   \<and> map (\<lambda>l. includes_str l ''tooltip'')
     (filter (\<lambda>l. starts_with l ''    line.new('')
        (splitLines (winnerBlock constants 0 showNumber
           (exampleTrade ''100001'' ''2024.01.10 10:00:00'' (3 / 2) 50))))
     = [False]
   \<and> map (\<lambda>l. includes_str l ''Profit: NaN'')
     (filter (\<lambda>l. starts_with l ''    label.new('')
        (splitLines (loserBlock constants 0 showNumber
           ((exampleTrade ''100003'' ''2024.01.10 10:00:00'' (3 / 2) 0)\<lparr>profit := NaN\<rparr>))))
     = [True]
   \<and> \<not> twoDecimals ''NaN''"
proof -
  have "generatePineScriptForItem constants 0 showNumber ''eurusd''
     \<lparr>winners = [exampleTrade ''100001'' ''2024.01.10 10:00:00'' (3 / 2) 50],
      breakeven = [],
      losers = [(exampleTrade ''100003'' ''2024.01.10 10:00:00'' (3 / 2) 0)\<lparr>profit := NaN\<rparr>]\<rparr>
   = scriptHeader ''eurusd''
     @ winnerBlock constants 0 showNumber (exampleTrade ''100001'' ''2024.01.10 10:00:00'' (3 / 2) 50)
     @ loserBlock constants 0 showNumber
         ((exampleTrade ''100003'' ''2024.01.10 10:00:00'' (3 / 2) 0)\<lparr>profit := NaN\<rparr>)"
    by (simp add: generatePineScriptForItem_def Let_def)
  then show ?thesis
    using line_example nan_example nan_not_two_decimals by (intro conjI)
qed

end
